theory Spec2Isabelle
  imports Complex_Main "HOL-Library.Sublist"
begin

section \<open>Python values, failures and slices\<close>

text \<open>
  Numbers read from the store (SQLite INTEGER and REAL columns) and every number computed
  from them are exact rationals here: Python's binary floating point rounding, overflow
  to infinity and NaN are outside this development.  Each Python operation that can
  raise returns a sum, with the exception on the left.
\<close>

datatype error = TypeError | IndexError | ValueError | ZeroDivisionError

definition ebind :: "error + 'a \<Rightarrow> ('a \<Rightarrow> error + 'b) \<Rightarrow> error + 'b" where
  "ebind m f = (case m of Inl e \<Rightarrow> Inl e | Inr x \<Rightarrow> f x)"

definition py_div :: "rat \<Rightarrow> rat \<Rightarrow> error + rat" where
  \<comment> \<open>\<open>a / b\<close>\<close>
  "py_div a b = (if b = 0 then Inl ZeroDivisionError else Inr (a / b))"

definition clamp_index :: "nat \<Rightarrow> int \<Rightarrow> nat" where
  \<comment> \<open>how a slice bound is read against a list of length \<open>n\<close>: a negative bound counts
      from the end, and both are clamped into \<open>0..n\<close>\<close>
  "clamp_index n i = (if i < 0 then nat (max 0 (int n + i)) else nat (min i (int n)))"

definition slice_from :: "'a list \<Rightarrow> int \<Rightarrow> 'a list" where
  \<comment> \<open>\<open>xs[s:]\<close>\<close>
  "slice_from xs s = drop (clamp_index (length xs) s) xs"

definition slice :: "'a list \<Rightarrow> int \<Rightarrow> int \<Rightarrow> 'a list" where
  \<comment> \<open>\<open>xs[s:e]\<close>\<close>
  "slice xs s e =
     (let lo = clamp_index (length xs) s; hi = clamp_index (length xs) e
      in take (hi - lo) (drop lo xs))"

definition py_last :: "'a list \<Rightarrow> error + 'a" where
  \<comment> \<open>\<open>xs[-1]\<close>\<close>
  "py_last xs = (if xs = [] then Inl IndexError else Inr (last xs))"

section \<open>Metric series\<close>

text \<open>One row of \<open>_get_metric\<close>: \<open>{"date": ..., "value": ...}\<close>, the value never null.\<close>

record point =
  date :: string
  val :: rat

section \<open>Statistical helpers\<close>

definition avg :: "rat option list \<Rightarrow> error + rat option" where
  "avg values =
     (let valid = [the v. v \<leftarrow> values, v \<noteq> None]
      in if valid \<noteq> []
         then ebind (py_div (sum_list valid) (of_nat (length valid))) (\<lambda>q. Inr (Some q))
         else Inr None)"

definition recent_values :: "point list \<Rightarrow> int \<Rightarrow> rat list" where
  "recent_values data n = [val d. d \<leftarrow> slice_from data (- n)]"

definition slope_num :: "rat list \<Rightarrow> rat \<Rightarrow> rat \<Rightarrow> rat" where
  \<comment> \<open>\<open>sum((i - x_mean) * (v - y_mean) for i, v in enumerate(vals))\<close>\<close>
  "slope_num vals x_mean y_mean =
     sum_list [(of_nat i - x_mean) * (v - y_mean). (i, v) \<leftarrow> enumerate 0 vals]"

definition slope_den :: "nat \<Rightarrow> rat \<Rightarrow> rat" where
  \<comment> \<open>\<open>sum((i - x_mean) ** 2 for i in range(n_pts))\<close>\<close>
  "slope_den n_pts x_mean = sum_list [(of_nat i - x_mean)\<^sup>2. i \<leftarrow> [0..<n_pts]]"

definition trend_slope :: "point list \<Rightarrow> int \<Rightarrow> error + rat option" where
  "trend_slope data n =
     (let pts = slice_from data (- n) in
      if length pts < 3 then Inr None
      else
        let vals = [val d. d \<leftarrow> pts];
            n_pts = length vals;
            x_mean = (of_nat n_pts - 1) / 2
        in ebind (py_div (sum_list vals) (of_nat n_pts)) (\<lambda>y_mean.
             let num = slope_num vals x_mean y_mean;
                 den = slope_den n_pts x_mean
             in if den \<noteq> 0 then ebind (py_div num den) (\<lambda>s. Inr (Some s)) else Inr None))"

text \<open>The \<open>for d in reversed(pts)\<close> loops, with \<open>break\<close> at the first point that fails.\<close>

fun count_below :: "rat \<Rightarrow> point list \<Rightarrow> nat \<Rightarrow> nat" where
  "count_below threshold [] count = count"
| "count_below threshold (d # ds) count =
     (if val d < threshold then count_below threshold ds (count + 1) else count)"

fun count_above :: "rat \<Rightarrow> point list \<Rightarrow> nat \<Rightarrow> nat" where
  "count_above threshold [] count = count"
| "count_above threshold (d # ds) count =
     (if val d > threshold then count_above threshold ds (count + 1) else count)"

definition consecutive_below :: "point list \<Rightarrow> rat \<Rightarrow> int \<Rightarrow> nat" where
  "consecutive_below data threshold from_end =
     (let pts = slice_from data (- from_end) in count_below threshold (rev pts) 0)"

definition consecutive_above :: "point list \<Rightarrow> rat \<Rightarrow> int \<Rightarrow> nat" where
  "consecutive_above data threshold from_end =
     (let pts = slice_from data (- from_end) in count_above threshold (rev pts) 0)"

section \<open>Rounding, truthiness and other built-ins\<close>

definition py_round :: "rat \<Rightarrow> int" where
  \<comment> \<open>\<open>round(x)\<close>: to the nearest integer, a tie to the even one\<close>
  "py_round x =
     (let f = \<lfloor>x\<rfloor>; r = x - of_int f
      in if r < 1 / 2 then f else if 1 / 2 < r then f + 1 else if even f then f else f + 1)"

definition py_round_n :: "rat \<Rightarrow> nat \<Rightarrow> rat" where
  \<comment> \<open>\<open>round(x, k)\<close>\<close>
  "py_round_n x k = of_int (py_round (x * 10 ^ k)) / 10 ^ k"

definition truthy :: "rat option \<Rightarrow> bool" where
  \<comment> \<open>the truth value of a number or \<open>None\<close>: \<open>None\<close> and zero are false\<close>
  "truthy v = (case v of None \<Rightarrow> False | Some x \<Rightarrow> x \<noteq> 0)"

definition num_of :: "rat option \<Rightarrow> error + rat" where
  \<comment> \<open>an operand of arithmetic, of an ordering or of \<open>round\<close>: \<open>None\<close> there raises\<close>
  "num_of v = (case v of None \<Rightarrow> Inl TypeError | Some x \<Rightarrow> Inr x)"

definition eand :: "bool \<Rightarrow> error + bool \<Rightarrow> error + bool" where
  \<comment> \<open>\<open>a and b\<close> read as a truth value: \<open>b\<close> is evaluated only when \<open>a\<close> is true\<close>
  "eand a b = (if a then b else Inr False)"

definition py_max :: "rat list \<Rightarrow> error + rat" where
  \<comment> \<open>\<open>max(xs)\<close>\<close>
  "py_max xs = (if xs = [] then Inl ValueError else Inr (fold max (tl xs) (hd xs)))"

definition dict_get :: "(string \<rightharpoonup> 'a list) \<Rightarrow> string \<Rightarrow> 'a list" where
  \<comment> \<open>\<open>data.get(key, [])\<close>\<close>
  "dict_get d k = (case d k of None \<Rightarrow> [] | Some v \<Rightarrow> v)"

section \<open>Strings\<close>

text \<open>
  A \<open>string\<close> is a list of bytes; the case conversions below act on ASCII letters and
  leave every other byte alone.
\<close>

definition is_lower :: "char \<Rightarrow> bool" where
  "is_lower c = (97 \<le> (of_char c :: nat) \<and> (of_char c :: nat) \<le> 122)"

definition is_upper :: "char \<Rightarrow> bool" where
  "is_upper c = (65 \<le> (of_char c :: nat) \<and> (of_char c :: nat) \<le> 90)"

definition to_upper :: "char \<Rightarrow> char" where
  "to_upper c = (if is_lower c then ''ABCDEFGHIJKLMNOPQRSTUVWXYZ'' ! (of_char c - 97) else c)"

definition to_lower :: "char \<Rightarrow> char" where
  "to_lower c = (if is_upper c then ''abcdefghijklmnopqrstuvwxyz'' ! (of_char c - 65) else c)"

definition upper :: "string \<Rightarrow> string" where
  \<comment> \<open>\<open>s.upper()\<close>\<close>
  "upper s = map to_upper s"

definition replace_char :: "char \<Rightarrow> char \<Rightarrow> string \<Rightarrow> string" where
  \<comment> \<open>\<open>s.replace(a, b)\<close> for one-character \<open>a\<close> and \<open>b\<close>\<close>
  "replace_char a b s = map (\<lambda>c. if c = a then b else c) s"

fun title_from :: "bool \<Rightarrow> string \<Rightarrow> string" where
  \<comment> \<open>\<open>s.title()\<close>; the flag says whether the previous character was a letter\<close>
  "title_from prev [] = []"
| "title_from prev (c # cs) =
     (if is_lower c \<or> is_upper c
      then (if prev then to_lower c else to_upper c) # title_from True cs
      else c # title_from False cs)"

definition title :: "string \<Rightarrow> string" where
  "title s = title_from False s"

text \<open>
  A Python \<open>str\<close> built by an f-string is kept as its pieces: literal text and the
  numbers interpolated into it, whose digits are not rendered.
\<close>

datatype frag =
    Lit string
  | Str_int int  \<comment> \<open>\<open>{n}\<close> for an integer\<close>
  | Str_int_comma int  \<comment> \<open>\<open>{n:,}\<close>\<close>
  | Str_num rat  \<comment> \<open>\<open>{x}\<close> or \<open>str(x)\<close> for a number from the store or a float\<close>

type_synonym pystr = "frag list"

definition join_lines :: "pystr list \<Rightarrow> pystr" where
  \<comment> \<open>\<open>"\n".join(lines)\<close>\<close>
  "join_lines ls = (case ls of [] \<Rightarrow> [] | l # rest \<Rightarrow> l @ concat [Lit [CHR 0x0A] # r. r \<leftarrow> rest])"

definition em_dash :: string where
  \<comment> \<open>U+2014 in UTF-8\<close>
  "em_dash = [CHR 0xE2, CHR 0x80, CHR 0x94]"

datatype pyval =
    PNone
  | PBool bool
  | PInt int
  | PNum rat
  | PStr pystr
  | PList "pyval list"
  | PDict "(string \<times> pyval) list"

section \<open>Calendar dates\<close>

text \<open>
  \<open>datetime.strptime(s, "%Y-%m-%d").date()\<close>: a four-digit year, a month and a day of
  one or two digits (the day also as a blank and a digit), separated by \<open>-\<close>, and
  naming a day of the proleptic Gregorian calendar from year 1 on; anything else is a
  \<open>ValueError\<close>.  A date is then its ordinal, as \<open>date.toordinal()\<close> counts it.
\<close>

definition is_digit :: "char \<Rightarrow> bool" where
  "is_digit c = (48 \<le> (of_char c :: nat) \<and> (of_char c :: nat) \<le> 57)"

definition digit_value :: "char \<Rightarrow> nat" where
  "digit_value c = of_char c - 48"

definition int_of_digits :: "string \<Rightarrow> nat" where
  "int_of_digits s = foldl (\<lambda>n c. 10 * n + digit_value c) 0 s"

fun split_on :: "char \<Rightarrow> string \<Rightarrow> string list" where
  \<comment> \<open>the pieces of a string between the separators\<close>
  "split_on sep [] = [[]]"
| "split_on sep (c # cs) =
     (if c = sep then [] # split_on sep cs
      else (case split_on sep cs of [] \<Rightarrow> [[c]] | f # fs \<Rightarrow> (c # f) # fs))"

definition is_leap :: "nat \<Rightarrow> bool" where
  "is_leap y = (y mod 4 = 0 \<and> (y mod 100 \<noteq> 0 \<or> y mod 400 = 0))"

definition days_in_month :: "nat \<Rightarrow> nat \<Rightarrow> nat" where
  "days_in_month y m =
     (if m = 2 then (if is_leap y then 29 else 28)
      else if m \<in> {4, 6, 9, 11} then 30
      else if 1 \<le> m \<and> m \<le> 12 then 31 else 0)"

definition days_before_year :: "nat \<Rightarrow> nat" where
  "days_before_year y = (y - 1) * 365 + (y - 1) div 4 - (y - 1) div 100 + (y - 1) div 400"

definition days_before_month :: "nat \<Rightarrow> nat \<Rightarrow> nat" where
  "days_before_month y m = sum_list [days_in_month y k. k \<leftarrow> [1..<m]]"

definition toordinal :: "nat \<times> nat \<times> nat \<Rightarrow> int" where
  "toordinal ymd = (case ymd of (y, m, d) \<Rightarrow> int (days_before_year y + days_before_month y m + d))"

definition month_field :: "string \<Rightarrow> bool" where
  "month_field m = (length m \<in> {1, 2} \<and> list_all is_digit m
                    \<and> 1 \<le> int_of_digits m \<and> int_of_digits m \<le> 12)"

definition day_field :: "string \<Rightarrow> bool" where
  "day_field d =
     ((length d \<in> {1, 2} \<and> list_all is_digit d \<and> 1 \<le> int_of_digits d \<and> int_of_digits d \<le> 31)
      \<or> (length d = 2 \<and> hd d = CHR '' '' \<and> is_digit (d ! 1) \<and> d ! 1 \<noteq> CHR ''0''))"

definition strptime_ymd :: "string \<Rightarrow> error + int" where
  "strptime_ymd s =
     (case split_on CHR ''-'' s of
        [y, m, d] \<Rightarrow>
          if length y = 4 \<and> list_all is_digit y \<and> month_field m \<and> day_field d
          then
            let year = int_of_digits y;
                month = int_of_digits m;
                day = int_of_digits (if hd d = CHR '' '' then tl d else d)
            in if 1 \<le> year \<and> day \<le> days_in_month year month
               then Inr (toordinal (year, month, day))
               else Inl ValueError
          else Inl ValueError
      | _ \<Rightarrow> Inl ValueError)"

definition valid_date_string :: "string \<Rightarrow> bool" where
  \<comment> \<open>a calendar day written \<open>YYYY-MM-DD\<close>, as the synchronisation job stores it\<close>
  "valid_date_string s =
     (length s = 10 \<and> s ! 4 = CHR ''-'' \<and> s ! 7 = CHR ''-''
      \<and> list_all is_digit (take 4 s) \<and> list_all is_digit (take 2 (drop 5 s))
      \<and> list_all is_digit (drop 8 s)
      \<and> (let y = int_of_digits (take 4 s);
              m = int_of_digits (take 2 (drop 5 s));
              d = int_of_digits (drop 8 s)
          in 1 \<le> y \<and> 1 \<le> m \<and> m \<le> 12 \<and> 1 \<le> d \<and> d \<le> days_in_month y m))"

section \<open>Rules engine\<close>

record finding =
  category :: string
  severity :: string
  rule :: string
  message :: pystr
  fdata :: "(string \<times> pyval) list"  \<comment> \<open>the \<open>"data"\<close> entry\<close>

text \<open>
  \<open>run_rules\<close> is one function in the source; here each detector group is a
  definition of its own that takes the findings collected so far and returns them with
  its own appended, and \<open>run_rules\<close> chains the groups in the source's order.
\<close>

definition sleep_duration_rules :: "point list \<Rightarrow> finding list \<Rightarrow> error + finding list" where
  "sleep_duration_rules sleep_dur findings =
     (if sleep_dur \<noteq> [] then
        let consec = consecutive_below sleep_dur (7 * 3600) 7 in
        ebind
          (if 3 \<le> consec then
             ebind
               (if recent_values sleep_dur 7 \<noteq> []
                then ebind (avg (map Some (recent_values sleep_dur 7))) (\<lambda>a.
                     ebind (num_of a) (\<lambda>x. Inr (PNum (py_round_n (x / 3600) 1))))
                else Inr PNone)
               (\<lambda>recent_avg_hrs.
                  Inr (findings @
                    [\<lparr>category = ''sleep'', severity = ''warning'', rule = ''sleep_low_duration'',
                      message = [Lit ''Sleep under 7 hours for '', Str_int (int consec),
                                 Lit '' consecutive nights''],
                      fdata = [(''consecutive_days'', PInt (int consec)),
                               (''recent_avg_hrs'', recent_avg_hrs)]\<rparr>]))
           else Inr findings)
          (\<lambda>findings.
             ebind (trend_slope sleep_dur 14) (\<lambda>slope.
               case slope of
                 None \<Rightarrow> Inr findings
               | Some sl \<Rightarrow>
                   if sl < - 120 then
                     Inr (findings @
                       [\<lparr>category = ''sleep'', severity = ''warning'', rule = ''sleep_declining'',
                         message = [Lit ''Sleep duration trending downward over the past 2 weeks''],
                         fdata = [(''trend_min_per_day'', PNum (py_round_n (sl / 60) 1))]\<rparr>])
                   else Inr findings))
      else Inr findings)"

definition sleep_score_rules :: "point list \<Rightarrow> finding list \<Rightarrow> error + finding list" where
  "sleep_score_rules sleep_score findings =
     (if sleep_score \<noteq> [] then
        let consec = consecutive_below sleep_score 70 7 in
        if 3 \<le> consec then
          ebind (avg (map Some (recent_values sleep_score 7))) (\<lambda>a.
          ebind (num_of a) (\<lambda>x.
            Inr (findings @
              [\<lparr>category = ''sleep'', severity = ''warning'', rule = ''sleep_low_score'',
                message = [Lit ''Sleep score below 70 for '', Str_int (int consec),
                           Lit '' consecutive days''],
                fdata = [(''consecutive_days'', PInt (int consec)),
                         (''recent_avg'', PInt (py_round x))]\<rparr>])))
        else Inr findings
      else Inr findings)"

definition hrv_rules :: "point list \<Rightarrow> finding list \<Rightarrow> error + finding list" where
  "hrv_rules hrv_data findings =
     (if hrv_data \<noteq> [] \<and> 7 \<le> length hrv_data then
        ebind (avg [Some (val d). d \<leftarrow> hrv_data]) (\<lambda>avg_30.
        ebind (avg (map Some (recent_values hrv_data 7))) (\<lambda>avg_7.
        ebind (if 14 \<le> length hrv_data
               then avg [Some (val d). d \<leftarrow> slice hrv_data (- 14) (- 7)]
               else Inr None) (\<lambda>prev_7.
        ebind
          (if truthy avg_30 then
             ebind (num_of avg_30) (\<lambda>a30.
               let consec = consecutive_below hrv_data a30 10 in
               if 3 \<le> consec then
                 ebind (if truthy avg_7
                        then ebind (num_of avg_7) (\<lambda>a7. Inr (PInt (py_round a7)))
                        else Inr PNone) (\<lambda>current_avg.
                   Inr (findings @
                     [\<lparr>category = ''recovery'', severity = ''warning'', rule = ''hrv_below_baseline'',
                       message = [Lit ''HRV below your baseline for '', Str_int (int consec),
                                  Lit '' consecutive days''],
                       fdata = [(''consecutive_days'', PInt (int consec)),
                                (''baseline'', PInt (py_round a30)),
                                (''current_avg'', current_avg)]\<rparr>]))
               else Inr findings)
           else Inr findings)
          (\<lambda>findings.
             ebind (eand (truthy prev_7) (eand (truthy avg_7)
                      (ebind (num_of prev_7) (\<lambda>p7. Inr (0 < p7))))) (\<lambda>go.
               if go then
                 ebind (num_of avg_7) (\<lambda>a7.
                 ebind (num_of prev_7) (\<lambda>p7.
                 ebind (py_div (a7 - p7) p7) (\<lambda>q.
                   let pct_change = q * 100 in
                   if pct_change < - 15 then
                     Inr (findings @
                       [\<lparr>category = ''recovery'', severity = ''alert'', rule = ''hrv_weekly_drop'',
                         message = [Lit ''HRV dropped '', Str_int \<bar>py_round pct_change\<bar>,
                                    Lit ''% week-over-week''],
                         fdata = [(''this_week'', PInt (py_round a7)),
                                  (''last_week'', PInt (py_round p7)),
                                  (''pct_change'', PNum (py_round_n pct_change 1))]\<rparr>])
                   else Inr findings)))
               else Inr findings)))))
      else Inr findings)"

definition rhr_rules :: "point list \<Rightarrow> finding list \<Rightarrow> error + finding list" where
  "rhr_rules rhr_data findings =
     (if rhr_data \<noteq> [] \<and> 7 \<le> length rhr_data then
        ebind (avg [Some (val d). d \<leftarrow> rhr_data]) (\<lambda>avg_30.
        ebind (py_last rhr_data) (\<lambda>l.
          let latest = val l in
          ebind
            (ebind (eand (truthy avg_30)
                      (ebind (num_of avg_30) (\<lambda>a30. Inr (a30 * 1.1 < latest)))) (\<lambda>go.
               if go then
                 ebind (num_of avg_30) (\<lambda>a30.
                 ebind (py_div (latest - a30) a30) (\<lambda>q.
                   Inr (findings @
                     [\<lparr>category = ''recovery'', severity = ''warning'', rule = ''rhr_elevated'',
                       message = [Lit ''Resting HR at '', Str_num latest, Lit '' bpm '',
                                  Lit em_dash, Lit '' '', Str_int (py_round (q * 100)),
                                  Lit ''% above your average ('', Str_int (py_round a30),
                                  Lit '' bpm)''],
                       fdata = [(''current'', PNum latest),
                                (''baseline'', PInt (py_round a30))]\<rparr>])))
               else Inr findings))
            (\<lambda>findings.
               ebind (trend_slope rhr_data 14) (\<lambda>slope.
                 case slope of
                   None \<Rightarrow> Inr findings
                 | Some sl \<Rightarrow>
                     if 0.2 < sl then
                       Inr (findings @
                         [\<lparr>category = ''recovery'', severity = ''warning'', rule = ''rhr_trending_up'',
                           message = [Lit ''Resting heart rate trending upward over the past 2 weeks''],
                           fdata = [(''trend_bpm_per_day'', PNum (py_round_n sl 2))]\<rparr>])
                     else Inr findings))))
      else Inr findings)"

definition body_battery_rules :: "point list \<Rightarrow> finding list \<Rightarrow> error + finding list" where
  "body_battery_rules bb_data findings =
     (if bb_data \<noteq> [] then
        let consec = consecutive_below bb_data 80 7 in
        if 3 \<le> consec then
          ebind (py_max (recent_values bb_data 3)) (\<lambda>recent_high.
            Inr (findings @
              [\<lparr>category = ''recovery'', severity = ''warning'', rule = ''body_battery_low'',
                message = [Lit ''Body Battery hasn't recovered above 80 for '',
                           Str_int (int consec), Lit '' consecutive days''],
                fdata = [(''consecutive_days'', PInt (int consec)),
                         (''recent_high'', PNum recent_high)]\<rparr>]))
        else Inr findings
      else Inr findings)"

definition stress_rules :: "point list \<Rightarrow> finding list \<Rightarrow> error + finding list" where
  "stress_rules stress_data findings =
     (if stress_data \<noteq> [] then
        let consec = consecutive_above stress_data 50 7 in
        ebind
          (if 3 \<le> consec then
             ebind (avg (map Some (recent_values stress_data 7))) (\<lambda>a.
             ebind (num_of a) (\<lambda>x.
               Inr (findings @
                 [\<lparr>category = ''stress'', severity = ''warning'', rule = ''stress_high'',
                   message = [Lit ''Average daily stress above 50 for '', Str_int (int consec),
                              Lit '' consecutive days''],
                   fdata = [(''consecutive_days'', PInt (int consec)),
                            (''recent_avg'', PInt (py_round x))]\<rparr>])))
           else Inr findings)
          (\<lambda>findings.
             ebind (trend_slope stress_data 14) (\<lambda>slope.
               case slope of
                 None \<Rightarrow> Inr findings
               | Some sl \<Rightarrow>
                   if 0.5 < sl then
                     Inr (findings @
                       [\<lparr>category = ''stress'', severity = ''warning'', rule = ''stress_trending_up'',
                         message = [Lit ''Stress levels trending upward over the past 2 weeks''],
                         fdata = [(''trend_per_day'', PNum (py_round_n sl 2))]\<rparr>])
                   else Inr findings))
      else Inr findings)"

definition has_training :: "point list \<Rightarrow> error + bool" where
  \<comment> \<open>\<open>len(tl) >= 7 and avg(recent_values(tl, 7)) and avg(recent_values(tl, 7)) > 0\<close>;
      the source's \<open>tl\<close> is \<open>tload\<close> here\<close>
  "has_training tload =
     eand (7 \<le> length tload)
       (ebind (avg (map Some (recent_values tload 7))) (\<lambda>a.
          eand (truthy a)
            (ebind (avg (map Some (recent_values tload 7))) (\<lambda>b.
             ebind (num_of b) (\<lambda>x. Inr (0 < x))))))"

definition weight_rules ::
  "int \<Rightarrow> (string \<rightharpoonup> point list) \<Rightarrow> point list \<Rightarrow> finding list \<Rightarrow> error + finding list" where
  \<comment> \<open>\<open>today\<close> is the ordinal of \<open>datetime.now().date()\<close>\<close>
  "weight_rules today data weight_data findings =
     (if weight_data \<noteq> [] then
        ebind (py_last weight_data) (\<lambda>l.
          let last_date = date l in
          ebind (strptime_ymd last_date) (\<lambda>parsed.
            let days_since = today - parsed;
                findings =
                  (if 7 \<le> days_since then
                     findings @
                       [\<lparr>category = ''body_composition'', severity = ''info'', rule = ''weight_no_data'',
                         message = [Lit ''No weight data logged in '', Str_int days_since,
                                    Lit '' days''],
                         fdata = [(''days_since'', PInt days_since)]\<rparr>]
                   else findings)
            in
            if 14 \<le> length weight_data then
              ebind (avg (map Some (recent_values weight_data 7))) (\<lambda>recent_avg.
              ebind (avg [Some (val d). d \<leftarrow> slice weight_data (- 14) (- 7)]) (\<lambda>prev_avg.
              ebind
                (if truthy recent_avg \<and> truthy prev_avg then
                   ebind (num_of recent_avg) (\<lambda>ra.
                   ebind (num_of prev_avg) (\<lambda>pa.
                     let weekly_change = ra - pa in
                     if 907 < weekly_change then
                       Inr (findings @
                         [\<lparr>category = ''body_composition'', severity = ''warning'',
                           rule = ''weight_rapid_gain'',
                           message = [Lit ''Weight increasing at '',
                                      Str_num (py_round_n (weekly_change / 453.6) 1),
                                      Lit '' lbs/week''],
                           fdata = [(''weekly_change_g'', PInt (py_round weekly_change)),
                                    (''weekly_change_lbs'',
                                       PNum (py_round_n (weekly_change / 453.6) 1))]\<rparr>])
                     else Inr findings))
                 else Inr findings)
                (\<lambda>findings.
                   if 21 \<le> length weight_data then
                     ebind (avg [Some (val d). d \<leftarrow> slice weight_data (- 21) (- 14)]) (\<lambda>avg_3wk_ago.
                       if truthy recent_avg \<and> truthy avg_3wk_ago then
                         ebind (num_of recent_avg) (\<lambda>ra.
                         ebind (num_of avg_3wk_ago) (\<lambda>a3.
                           let change_3wk = \<bar>ra - a3\<bar>;
                               tload = dict_get data ''training_load'' in
                           ebind (has_training tload) (\<lambda>ht.
                             if change_3wk < 227 \<and> ht then
                               Inr (findings @
                                 [\<lparr>category = ''body_composition'', severity = ''info'',
                                   rule = ''weight_plateau'',
                                   message = [Lit ''Weight has plateaued over the past 3 weeks despite active training''],
                                   fdata = [(''change_g'', PInt (py_round change_3wk))]\<rparr>])
                             else Inr findings)))
                       else Inr findings)
                   else Inr findings)))
            else Inr findings))
      else Inr findings)"

definition steps_rules :: "point list \<Rightarrow> finding list \<Rightarrow> error + finding list" where
  "steps_rules steps_data findings =
     (if steps_data \<noteq> [] \<and> 7 \<le> length steps_data then
        ebind (avg (map Some (recent_values steps_data 7))) (\<lambda>avg_steps.
        ebind (eand (truthy avg_steps)
                 (ebind (num_of avg_steps) (\<lambda>x. Inr (x < 7000)))) (\<lambda>go.
          if go then
            ebind (num_of avg_steps) (\<lambda>x.
              Inr (findings @
                [\<lparr>category = ''activity'', severity = ''info'', rule = ''steps_low'',
                  message = [Lit ''Daily step average this week is '', Str_int_comma (py_round x),
                             Lit '' '', Lit em_dash, Lit '' below 7,000 target''],
                  fdata = [(''weekly_avg'', PInt (py_round x))]\<rparr>]))
          else Inr findings))
      else Inr findings)"

definition training_load_rules :: "point list \<Rightarrow> finding list \<Rightarrow> error + finding list" where
  "training_load_rules tl_data findings =
     (if tl_data \<noteq> [] \<and> 14 \<le> length tl_data then
        ebind (avg (map Some (recent_values tl_data 7))) (\<lambda>avg_recent.
        ebind (avg [Some (val d). d \<leftarrow> slice tl_data (- 14) (- 7)]) (\<lambda>avg_prev.
        ebind (eand (truthy avg_recent) (eand (truthy avg_prev)
                 (ebind (num_of avg_prev) (\<lambda>ap. Inr (0 < ap))))) (\<lambda>go.
          if go then
            ebind (num_of avg_recent) (\<lambda>ar.
            ebind (num_of avg_prev) (\<lambda>ap.
            ebind (py_div ar ap) (\<lambda>ratio.
              if 1.3 < ratio then
                Inr (findings @
                  [\<lparr>category = ''activity'', severity = ''warning'', rule = ''training_load_spike'',
                    message = [Lit ''Training load '', Str_int (py_round ((ratio - 1) * 100)),
                               Lit ''% above last week '', Lit em_dash, Lit '' overtraining risk''],
                    fdata = [(''this_week'', PInt (py_round ar)),
                             (''last_week'', PInt (py_round ap)),
                             (''ratio'', PNum (py_round_n ratio 2))]\<rparr>])
              else Inr findings)))
          else Inr findings)))
      else Inr findings)"

definition vo2max_rules :: "point list \<Rightarrow> finding list \<Rightarrow> error + finding list" where
  "vo2max_rules vo2_data findings =
     (if vo2_data \<noteq> [] \<and> 14 \<le> length vo2_data then
        ebind (trend_slope vo2_data 14) (\<lambda>slope.
          case slope of
            None \<Rightarrow> Inr findings
          | Some sl \<Rightarrow>
              if sl < - 0.03 then
                Inr (findings @
                  [\<lparr>category = ''activity'', severity = ''warning'', rule = ''vo2max_declining'',
                    message = [Lit ''VO2 Max is declining''],
                    fdata = [(''trend_per_day'', PNum (py_round_n sl 3))]\<rparr>])
              else Inr findings)
      else Inr findings)"

definition poor_sleep :: "point list \<Rightarrow> error + bool" where
  "poor_sleep sleep_dur =
     eand (3 \<le> length sleep_dur)
       (ebind (avg (map Some (recent_values sleep_dur 3))) (\<lambda>a.
          eand (truthy a)
            (ebind (avg (map Some (recent_values sleep_dur 3))) (\<lambda>b.
             ebind (num_of b) (\<lambda>x. Inr (x < 6 * 3600))))))"

definition elevated_rhr :: "point list \<Rightarrow> error + bool" where
  \<comment> \<open>the source computes this expression twice, as \<open>elevated_rhr\<close> and \<open>elevated_rhr2\<close>\<close>
  "elevated_rhr rhr_data =
     eand (rhr_data \<noteq> [])
       (ebind (avg [Some (val d). d \<leftarrow> rhr_data]) (\<lambda>a.
          eand (truthy a)
            (ebind (py_last rhr_data) (\<lambda>l.
             ebind (avg [Some (val d). d \<leftarrow> rhr_data]) (\<lambda>b.
             ebind (num_of b) (\<lambda>x. Inr (x * 1.05 < val l)))))))"

definition low_hrv :: "point list \<Rightarrow> error + bool" where
  "low_hrv hrv_data =
     eand (hrv_data \<noteq> [])
       (ebind (avg [Some (val d). d \<leftarrow> hrv_data]) (\<lambda>a.
          eand (truthy a)
            (ebind (avg (map Some (recent_values hrv_data 3))) (\<lambda>r.
               eand (truthy r)
                 (ebind (avg (map Some (recent_values hrv_data 3))) (\<lambda>r'.
                  ebind (num_of r') (\<lambda>x.
                  ebind (avg [Some (val d). d \<leftarrow> hrv_data]) (\<lambda>b.
                  ebind (num_of b) (\<lambda>y. Inr (x < y * 0.85))))))))))"

definition high_load :: "point list \<Rightarrow> error + bool" where
  "high_load tl_data =
     eand (tl_data \<noteq> [])
       (eand (7 \<le> length tl_data)
          (ebind (avg (map Some (recent_values tl_data 7))) (\<lambda>a.
             eand (truthy a)
               (ebind (avg [Some (val d). d \<leftarrow> tl_data]) (\<lambda>b.
                  eand (truthy b)
                    (ebind (avg (map Some (recent_values tl_data 7))) (\<lambda>a'.
                     ebind (num_of a') (\<lambda>x.
                     ebind (avg [Some (val d). d \<leftarrow> tl_data]) (\<lambda>b'.
                     ebind (num_of b') (\<lambda>y. Inr (y * 1.2 < x)))))))))))"

definition declining_hrv :: "point list \<Rightarrow> error + bool" where
  "declining_hrv hrv_data =
     eand (hrv_data \<noteq> [])
       (ebind (trend_slope hrv_data 7) (\<lambda>s.
          eand (s \<noteq> None)
            (ebind (trend_slope hrv_data 7) (\<lambda>s'.
             ebind (num_of s') (\<lambda>x. Inr (x < - 0.5))))))"

definition correlation_rules ::
  "point list \<Rightarrow> point list \<Rightarrow> point list \<Rightarrow> point list \<Rightarrow> finding list \<Rightarrow> error + finding list" where
  "correlation_rules sleep_dur rhr_data hrv_data tl_data findings =
     ebind
       (if sleep_dur \<noteq> [] \<and> rhr_data \<noteq> [] \<and> hrv_data \<noteq> [] then
          ebind (poor_sleep sleep_dur) (\<lambda>ps.
          ebind (elevated_rhr rhr_data) (\<lambda>er.
          ebind (low_hrv hrv_data) (\<lambda>lh.
            if ps \<and> er \<and> lh then
              Inr (findings @
                [\<lparr>category = ''correlation'', severity = ''alert'', rule = ''recovery_deficit'',
                  message = [Lit ''Multiple recovery markers indicate a recovery deficit: poor sleep, elevated resting HR, and low HRV''],
                  fdata = []\<rparr>])
            else Inr findings)))
        else Inr findings)
       (\<lambda>findings.
          if tl_data \<noteq> [] \<and> hrv_data \<noteq> [] \<and> rhr_data \<noteq> [] then
            ebind (high_load tl_data) (\<lambda>hl.
            ebind (declining_hrv hrv_data) (\<lambda>dh.
            ebind (elevated_rhr rhr_data) (\<lambda>er2.
              if hl \<and> dh \<and> er2 then
                Inr (findings @
                  [\<lparr>category = ''correlation'', severity = ''alert'', rule = ''overtraining_risk'',
                    message = [Lit ''High training load combined with declining HRV and elevated resting HR suggests overtraining risk''],
                    fdata = []\<rparr>])
              else Inr findings)))
          else Inr findings)"

definition run_rules :: "int \<Rightarrow> (string \<rightharpoonup> point list) \<Rightarrow> error + finding list" where
  \<comment> \<open>the first argument is the clock's \<open>datetime.now().date()\<close>, as an ordinal\<close>
  "run_rules today data =
     (let findings = [];
          sleep_dur = dict_get data ''sleep_duration'';
          sleep_score = dict_get data ''sleep_score'';
          hrv_data = dict_get data ''hrv'';
          rhr_data = dict_get data ''resting_hr'';
          bb_data = dict_get data ''body_battery'';
          stress_data = dict_get data ''stress'';
          weight_data = dict_get data ''weight'';
          steps_data = dict_get data ''steps'';
          tl_data = dict_get data ''training_load'';
          vo2_data = dict_get data ''vo2max''
      in
      ebind (sleep_duration_rules sleep_dur findings) (\<lambda>findings.
      ebind (sleep_score_rules sleep_score findings) (\<lambda>findings.
      ebind (hrv_rules hrv_data findings) (\<lambda>findings.
      ebind (rhr_rules rhr_data findings) (\<lambda>findings.
      ebind (body_battery_rules bb_data findings) (\<lambda>findings.
      ebind (stress_rules stress_data findings) (\<lambda>findings.
      ebind (weight_rules today data weight_data findings) (\<lambda>findings.
      ebind (steps_rules steps_data findings) (\<lambda>findings.
      ebind (training_load_rules tl_data findings) (\<lambda>findings.
      ebind (vo2max_rules vo2_data findings) (\<lambda>findings.
      correlation_rules sleep_dur rhr_data hrv_data tl_data findings)))))))))))"

section \<open>Language-model layer\<close>

definition nl :: string where
  "nl = [CHR 0x0A]"

definition fmt_avg :: "rat list \<Rightarrow> int \<Rightarrow> (rat \<Rightarrow> rat) option \<Rightarrow> error + pystr" where
  "fmt_avg vals n transform =
     ebind (if vals \<noteq> [] then avg (map Some (slice_from vals (- n))) else Inr None) (\<lambda>v.
       case v of
         None \<Rightarrow> Inr [Lit ''N/A'']
       | Some x \<Rightarrow>
           Inr [Str_num (case transform of
                           Some t \<Rightarrow> py_round_n (t x) 1
                         | None \<Rightarrow> py_round_n x 1)])"

definition build_metric_summary :: "(string \<rightharpoonup> point list) \<Rightarrow> error + pystr" where
  \<comment> \<open>\<open>_build_metric_summary\<close>\<close>
  "build_metric_summary data =
     (let hours = Some (\<lambda>x. x / 3600);
          kilos = Some (\<lambda>x. x / 1000);
          sd = [val d. d \<leftarrow> dict_get data ''sleep_duration''];
          ss = [val d. d \<leftarrow> dict_get data ''sleep_score''];
          rhr = [val d. d \<leftarrow> dict_get data ''resting_hr''];
          hrv = [val d. d \<leftarrow> dict_get data ''hrv''];
          bb = [val d. d \<leftarrow> dict_get data ''body_battery''];
          st = [val d. d \<leftarrow> dict_get data ''stress''];
          vo2 = dict_get data ''vo2max'';
          wt = [val d. d \<leftarrow> dict_get data ''weight''];
          steps = [val d. d \<leftarrow> dict_get data ''steps''];
          tload = [val d. d \<leftarrow> dict_get data ''training_load'']
      in
      ebind (fmt_avg sd 7 hours) (\<lambda>sd7. ebind (fmt_avg sd 30 hours) (\<lambda>sd30.
      ebind (fmt_avg ss 7 None) (\<lambda>ss7. ebind (fmt_avg ss 30 None) (\<lambda>ss30.
      ebind (fmt_avg rhr 7 None) (\<lambda>rhr7. ebind (fmt_avg rhr 30 None) (\<lambda>rhr30.
      ebind (fmt_avg hrv 7 None) (\<lambda>hrv7. ebind (fmt_avg hrv 30 None) (\<lambda>hrv30.
      ebind (fmt_avg bb 7 None) (\<lambda>bb7. ebind (fmt_avg bb 30 None) (\<lambda>bb30.
      ebind (fmt_avg st 7 None) (\<lambda>st7. ebind (fmt_avg st 30 None) (\<lambda>st30.
      ebind (if vo2 \<noteq> [] then ebind (py_last vo2) (\<lambda>l. Inr [Str_num (val l)])
             else Inr [Lit ''N/A'']) (\<lambda>vo2_latest.
      ebind (if wt \<noteq> [] then ebind (py_last wt) (\<lambda>w. Inr [Str_num (py_round_n (w / 1000) 1)])
             else Inr [Lit ''N/A'']) (\<lambda>wt_latest.
      ebind (fmt_avg wt 30 kilos) (\<lambda>wt30.
      ebind (fmt_avg steps 7 None) (\<lambda>steps7. ebind (fmt_avg steps 30 None) (\<lambda>steps30.
      ebind (fmt_avg tload 7 None) (\<lambda>tl7. ebind (fmt_avg tload 30 None) (\<lambda>tl30.
        Inr (join_lines
          [[Lit ''Sleep duration: 7d avg ''] @ sd7 @ [Lit ''h, 30d avg ''] @ sd30 @ [Lit ''h''],
           [Lit ''Sleep score: 7d avg ''] @ ss7 @ [Lit '', 30d avg ''] @ ss30,
           [Lit ''Resting HR: 7d avg ''] @ rhr7 @ [Lit '' bpm, 30d avg ''] @ rhr30 @ [Lit '' bpm''],
           [Lit ''HRV: 7d avg ''] @ hrv7 @ [Lit '' ms, 30d avg ''] @ hrv30 @ [Lit '' ms''],
           [Lit ''Body Battery highest: 7d avg ''] @ bb7 @ [Lit '', 30d avg ''] @ bb30,
           [Lit ''Stress: 7d avg ''] @ st7 @ [Lit '', 30d avg ''] @ st30,
           [Lit ''VO2 Max: ''] @ vo2_latest,
           [Lit ''Weight: latest ''] @ wt_latest @ [Lit '' kg, 30d avg ''] @ wt30 @ [Lit '' kg''],
           [Lit ''Steps: 7d avg ''] @ steps7 @ [Lit '', 30d avg ''] @ steps30,
           [Lit ''Training load: 7d avg ''] @ tl7 @ [Lit '', 30d avg ''] @ tl30])))))))))))))))))))))"

definition system_prompt :: string where
  \<open>system_prompt =
     ''You are a knowledgeable fitness and health coach analyzing data from a Garmin Fenix 7X user. '' @
     ''Provide specific, actionable recommendations based on the patterns detected. Be direct and practical. '' @
     ''Reference specific numbers from their data. Suggest concrete changes to training, sleep habits, nutrition, or lifestyle. '' @
     ''Keep recommendations to 3-5 items, prioritized by impact.'' @ nl @ nl @
     ''Respond with a JSON array of objects, each with: '' @
     ''"title" (short, 5-8 words), '' @
     ''"text" (2-3 sentences, specific and actionable), '' @
     ''"severity" ("info", "warning", or "alert"), '' @
     ''"metrics" (list of metric names this relates to, e.g. ["sleep", "hrv"]). '' @
     ''Return ONLY valid JSON, no markdown or explanation.''\<close>

text \<open>
  What the \<open>try\<close> block around the client call can come to: an exception of the client
  or of reading \<open>response.content[0].text\<close>, a \<open>JSONDecodeError\<close> of \<open>json.loads\<close>,
  or a parsed JSON value.
\<close>

datatype llm_outcome = Call_failed | Json_decode_error | Parsed pyval

record request =
  client_kwargs :: "string \<rightharpoonup> string"
  model :: string
  max_tokens :: nat
  system :: string
  user_content :: pystr

text \<open>
  Everything the module reads from outside: the store, the clocks, the process
  environment, whether \<open>import anthropic\<close> succeeds, and the language model's answer to
  a request.  The digest of the metrics is a function of them that is left open.
\<close>

record env =
  db_rows :: "string \<Rightarrow> string \<Rightarrow> int \<Rightarrow> (string \<times> rat option) list"
    \<comment> \<open>table, column, days: the rows \<open>(date, value)\<close> of the query, oldest first\<close>
  time_time :: rat
  date_today :: int
  md5_json_dumps :: "(string \<rightharpoonup> point list) \<Rightarrow> string"
  ANTHROPIC_API_KEY :: "string option"
  ANTHROPIC_BASE_URL :: "string option"
  anthropic_installed :: bool
  messages_create :: "request \<Rightarrow> llm_outcome"

definition str_truthy :: "string option \<Rightarrow> bool" where
  \<comment> \<open>the truth value of a string or \<open>None\<close>\<close>
  "str_truthy v = (case v of None \<Rightarrow> False | Some x \<Rightarrow> x \<noteq> [])"

definition findings_to_recommendations :: "finding list \<Rightarrow> pyval list" where
  \<comment> \<open>\<open>_findings_to_recommendations\<close>\<close>
  "findings_to_recommendations fs =
     [PDict [(''title'', PStr [Lit (title (replace_char CHR ''_'' CHR '' '' (rule f)))]),
             (''text'', PStr (message f)),
             (''severity'', PStr [Lit (severity f)]),
             (''metrics'', PList [PStr [Lit (category f)]])].
      f \<leftarrow> take 5 fs]"

definition llm_request ::
  "env \<Rightarrow> finding list \<Rightarrow> (string \<rightharpoonup> point list) \<Rightarrow> error + request" where
  \<comment> \<open>the part of \<open>get_llm_recommendations\<close> that builds the prompts and the client's
      arguments: what \<open>client.messages.create\<close> is called with\<close>
  "llm_request e fs data =
     (let api_key = ANTHROPIC_API_KEY e;
          base_url = ANTHROPIC_BASE_URL e;
          findings_text =
            (if fs \<noteq> []
             then join_lines [[Lit ''['', Lit (upper (severity f)), Lit ''] ''] @ message f. f \<leftarrow> fs]
             else [Lit ''No significant issues detected.''])
      in
      ebind (build_metric_summary data) (\<lambda>metric_summary.
        let user_message =
              [Lit (''Here are the detected patterns:'' @ nl)] @ findings_text @
              [Lit (nl @ nl @ ''Metric summaries (last 30 days):'' @ nl)] @ metric_summary @
              [Lit (nl @ nl @ ''Based on these patterns and data, provide your recommendations.'')];
            kw = Map.empty;
            kw = (if str_truthy api_key then kw(''api_key'' := api_key) else kw);
            kw = (if str_truthy base_url
                  then (let kw = kw(''base_url'' := base_url)
                        in if \<not> str_truthy api_key then kw(''api_key'' \<mapsto> ''unused'') else kw)
                  else kw)
        in Inr \<lparr>client_kwargs = kw, model = ''claude-sonnet-4-20250514'', max_tokens = 1024,
                 system = system_prompt, user_content = user_message\<rparr>))"

definition get_llm_recommendations ::
  "env \<Rightarrow> finding list \<Rightarrow> (string \<rightharpoonup> point list) \<Rightarrow> error + pyval list" where
  "get_llm_recommendations e fs data =
     (let api_key = ANTHROPIC_API_KEY e;
          base_url = ANTHROPIC_BASE_URL e
      in
      if \<not> str_truthy api_key \<and> \<not> str_truthy base_url then Inr (findings_to_recommendations fs)
      else if \<not> anthropic_installed e then Inr (findings_to_recommendations fs)
      else
        ebind (llm_request e fs data) (\<lambda>req.
          case messages_create e req of
            Parsed recs \<Rightarrow>
              (case recs of
                 PList items \<Rightarrow> Inr (take 5 items)
               | _ \<Rightarrow> Inr (findings_to_recommendations fs))
          | Json_decode_error \<Rightarrow> Inr (findings_to_recommendations fs)
          | Call_failed \<Rightarrow> Inr (findings_to_recommendations fs)))"

section \<open>Public API and the cache\<close>

record cache_entry =
  hash :: "string option"
  timestamp :: rat
  recommendations :: "pyval list option"

text \<open>
  The module's mutable state is the global \<open>_cache\<close>.  Beside it the state counts, as
  an observer would, how often the narrative generator \<open>get_llm_recommendations\<close> has
  been called.
\<close>

record state =
  cache :: cache_entry
  narrative_calls :: nat

definition initial_cache :: cache_entry where
  "initial_cache = \<lparr>hash = None, timestamp = 0, recommendations = None\<rparr>"

definition CACHE_TTL :: rat where
  "CACHE_TTL = 6 * 3600"

definition get_metric :: "env \<Rightarrow> string \<Rightarrow> string \<Rightarrow> int \<Rightarrow> point list" where
  \<comment> \<open>\<open>_get_metric\<close>: the rows whose value is not null\<close>
  "get_metric e table column days =
     [\<lparr>date = fst r, val = the (snd r)\<rparr>. r \<leftarrow> db_rows e table column days, snd r \<noteq> None]"

definition metric_columns :: "(string \<times> string \<times> string) list" where
  "metric_columns =
     [(''sleep_duration'', ''sleep'', ''duration_seconds''),
      (''sleep_score'', ''sleep'', ''sleep_score''),
      (''resting_hr'', ''resting_hr'', ''value''),
      (''hrv'', ''hrv'', ''last_night_avg''),
      (''body_battery'', ''body_battery'', ''highest''),
      (''stress'', ''stress'', ''avg_level''),
      (''vo2max'', ''vo2max'', ''vo2max_value''),
      (''weight'', ''weight_history'', ''weight_grams''),
      (''training_load'', ''training_load'', ''acute_load''),
      (''steps'', ''steps'', ''value'')]"

definition get_all_metrics :: "env \<Rightarrow> int \<Rightarrow> (string \<rightharpoonup> point list)" where
  "get_all_metrics e days =
     map_of [(name, get_metric e table col days). (name, table, col) \<leftarrow> metric_columns]"

definition list_truthy :: "'a list option \<Rightarrow> bool" where
  \<comment> \<open>the truth value of a list or \<open>None\<close>\<close>
  "list_truthy v = (case v of None \<Rightarrow> False | Some xs \<Rightarrow> xs \<noteq> [])"

record recommendations_result =
  recommendations :: "pyval list option"
  cached :: bool
  generated_at :: rat

definition get_recommendations ::
  "env \<Rightarrow> bool \<Rightarrow> state \<Rightarrow> (error + recommendations_result) \<times> state" where
  "get_recommendations e force s =
     (let data = get_all_metrics e 30;
          data_hash = md5_json_dumps e data;
          now = time_time e
      in
      if \<not> force \<and> hash (cache s) = Some data_hash
         \<and> now - timestamp (cache s) < CACHE_TTL
         \<and> list_truthy (cache_entry.recommendations (cache s))
      then
        (Inr \<lparr>recommendations = cache_entry.recommendations (cache s), cached = True,
              generated_at = timestamp (cache s)\<rparr>, s)
      else
        case run_rules (date_today e) data of
          Inl err \<Rightarrow> (Inl err, s)
        | Inr fs \<Rightarrow>
            let s = s\<lparr>narrative_calls := narrative_calls s + 1\<rparr> in
            (case get_llm_recommendations e fs data of
               Inl err \<Rightarrow> (Inl err, s)
             | Inr recs \<Rightarrow>
                 (Inr \<lparr>recommendations = Some recs, cached = False, generated_at = now\<rparr>,
                  s\<lparr>cache := \<lparr>hash = Some data_hash, timestamp = now,
                               recommendations = Some recs\<rparr>\<rparr>)))"

record rules_only_result =
  findings :: "finding list"
  count :: nat

definition get_rules_only :: "env \<Rightarrow> state \<Rightarrow> (error + rules_only_result) \<times> state" where
  "get_rules_only e s =
     (let data = get_all_metrics e 30 in
      case run_rules (date_today e) data of
        Inl err \<Rightarrow> (Inl err, s)
      | Inr fs \<Rightarrow> (Inr \<lparr>findings = fs, count = length fs\<rparr>, s))"

section \<open>The detector catalogue and well-formed input\<close>

text \<open>
  The eighteen places where \<open>run_rules\<close> appends a finding, in the order of the source
  text, each with the category, rule identifier and severity it writes.
\<close>

definition detector_catalog :: "(string \<times> string \<times> string) list" where
  "detector_catalog =
     [(''sleep'', ''sleep_low_duration'', ''warning''),
      (''sleep'', ''sleep_declining'', ''warning''),
      (''sleep'', ''sleep_low_score'', ''warning''),
      (''recovery'', ''hrv_below_baseline'', ''warning''),
      (''recovery'', ''hrv_weekly_drop'', ''alert''),
      (''recovery'', ''rhr_elevated'', ''warning''),
      (''recovery'', ''rhr_trending_up'', ''warning''),
      (''recovery'', ''body_battery_low'', ''warning''),
      (''stress'', ''stress_high'', ''warning''),
      (''stress'', ''stress_trending_up'', ''warning''),
      (''body_composition'', ''weight_no_data'', ''info''),
      (''body_composition'', ''weight_rapid_gain'', ''warning''),
      (''body_composition'', ''weight_plateau'', ''info''),
      (''activity'', ''steps_low'', ''info''),
      (''activity'', ''training_load_spike'', ''warning''),
      (''activity'', ''vo2max_declining'', ''warning''),
      (''correlation'', ''recovery_deficit'', ''alert''),
      (''correlation'', ''overtraining_risk'', ''alert'')]"

definition detector_key :: "finding \<Rightarrow> string \<times> string \<times> string" where
  "detector_key f = (category f, rule f, severity f)"

definition valid_metrics :: "(string \<rightharpoonup> point list) \<Rightarrow> bool" where
  \<comment> \<open>every point of the ten series carries a calendar day written \<open>YYYY-MM-DD\<close>\<close>
  "valid_metrics data =
     list_all (\<lambda>name. list_all (\<lambda>d. valid_date_string (date d)) (dict_get data name))
       (map fst metric_columns)"


definition is_list :: "pyval \<Rightarrow> bool" where
  \<comment> \<open>\<open>isinstance(v, list)\<close>\<close>
  "is_list v = (case v of PList items \<Rightarrow> True | _ \<Rightarrow> False)"

section \<open>Sample inputs\<close>

definition january :: "rat list \<Rightarrow> point list" where
  \<comment> \<open>at most 31 values as one series, on 2024-01-01, 2024-01-02 and so on\<close>
  "january vs =
     [\<lparr>date = ''2024-01-'' @ [''0123456789'' ! ((i + 1) div 10), ''0123456789'' ! ((i + 1) mod 10)],
       val = v\<rparr>. (i, v) \<leftarrow> enumerate 0 vs]"

definition stub_env :: env where
  \<comment> \<open>3 January 2024, noon UTC; no rows in the store; no language model configured\<close>
  "stub_env =
     \<lparr>db_rows = (\<lambda>table column days. []), time_time = 1704283200, date_today = 738888,
      md5_json_dumps = (\<lambda>data. ''d41d8cd9''), ANTHROPIC_API_KEY = None,
      ANTHROPIC_BASE_URL = None, anthropic_installed = False,
      messages_create = (\<lambda>req. Call_failed)\<rparr>"

section \<open>Auxiliary facts\<close>

lemma ebind_Inr [simp]: "ebind (Inr x) f = f x"
  by (simp add: ebind_def)

lemma ebind_Inl [simp]: "ebind (Inl e) f = Inl e"
  by (simp add: ebind_def)

lemma valid_values: "[the v. v \<leftarrow> map (\<lambda>d. Some (g d)) xs, v \<noteq> None] = map g xs"
  by (induction xs) simp_all

lemma avg_map: 
  "avg (map (\<lambda>d. Some (g d)) xs) =
     Inr (if xs = [] then None else Some (sum_list (map g xs) / of_nat (length xs)))"
  unfolding avg_def valid_values by (simp add: Let_def py_div_def)

lemma avg_map_Some:
  "avg (map Some xs) = Inr (if xs = [] then None else Some (sum_list xs / of_nat (length xs)))"
  using avg_map[of "\<lambda>x. x" xs] by simp


lemma slope_den_sum: "slope_den n x = (\<Sum>i = 0..<n. (of_nat i - x)\<^sup>2)"
  by (simp add: slope_den_def interv_sum_list_conv_sum_set_nat)

lemma slope_den_pos:
  assumes "2 \<le> n"
  shows "0 < slope_den n ((of_nat n - 1) / 2)"
proof -
  have "0 < (of_nat 0 - (of_nat n - 1) / 2 :: rat)\<^sup>2"
    using assms by simp
  moreover have "(0::nat) \<in> {0..<n}" using assms by simp
  ultimately show ?thesis
    unfolding slope_den_sum
    by (intro sum_pos2[where i = 0]) auto
qed

lemma trend_slope_short:
  "length (slice_from data (- n)) < 3 \<Longrightarrow> trend_slope data n = Inr None"
  by (simp add: trend_slope_def Let_def)

lemma trend_slope_long:
  assumes "3 \<le> length (slice_from data (- n))"
  shows "\<exists>s. trend_slope data n = Inr (Some s)"
proof -
  have "slope_den (length (slice_from data (- n))) ((of_nat (length (slice_from data (- n))) - 1) / 2) \<noteq> 0"
    using slope_den_pos[of "length (slice_from data (- n))"] assms by simp
  moreover have "(of_nat (length (slice_from data (- n))) :: rat) \<noteq> 0" using assms by auto
  ultimately show ?thesis
    using assms by (simp add: trend_slope_def Let_def py_div_def ebind_def)
qed

lemma trend_slope_total: "\<exists>r. trend_slope data n = Inr r"
  using trend_slope_short[of data n] trend_slope_long[of data n]
  by (cases "length (slice_from data (- n)) < 3") auto

lemma slice_from_last: "0 < w \<Longrightarrow> slice_from xs (- w) = drop (length xs - nat w) xs"
  by (auto simp: slice_from_def clamp_index_def max_def nat_diff_distrib' intro: arg_cong2[where f=drop])

lemma slice_from_empty_iff: "0 < w \<Longrightarrow> slice_from xs (- w) = [] \<longleftrightarrow> xs = []"
  by (cases xs) (auto simp: slice_from_last)

lemma recent_values_empty_iff: "0 < w \<Longrightarrow> recent_values xs w = [] \<longleftrightarrow> xs = []"
  by (simp add: recent_values_def slice_from_empty_iff)

lemma py_last_Inr: "xs \<noteq> [] \<Longrightarrow> py_last xs = Inr (last xs)"
  by (simp add: py_last_def)

lemma py_max_Inr: "xs \<noteq> [] \<Longrightarrow> \<exists>m. py_max xs = Inr m"
  by (simp add: py_max_def)


lemma slope_num_sum:
  "slope_num vals x y = (\<Sum>i = 0..<length vals. (of_nat i - x) * (vals ! i - y))"
proof -
  have "slope_num vals x y =
      (\<Sum>i = 0..<length vals. [(of_nat i - x) * (v - y). (i, v) \<leftarrow> enumerate 0 vals] ! i)"
    unfolding slope_num_def by (subst sum_list_sum_nth) simp
  also have "\<dots> = (\<Sum>i = 0..<length vals. (of_nat i - x) * (vals ! i - y))"
    by (rule sum.cong) (simp_all add: nth_enumerate_eq)
  finally show ?thesis .
qed

lemma sum_index: "(\<Sum>i = 0..<n. (of_nat i :: rat)) = of_nat n * (of_nat n - 1) / 2"
  by (induction n) (simp_all add: field_simps)

lemma sum_linear:
  fixes vals :: "rat list"
  assumes "\<And>i. i < length vals \<Longrightarrow> vals ! i = a + b * of_nat i"
  shows "sum_list vals = of_nat (length vals) * a + b * (of_nat (length vals) * (of_nat (length vals) - 1) / 2)"
proof -
  have "sum_list vals = (\<Sum>i = 0..<length vals. a + b * of_nat i)"
    unfolding sum_list_sum_nth using assms by (intro sum.cong) auto
  also have "\<dots> = of_nat (length vals) * a + b * (\<Sum>i = 0..<length vals. of_nat i)"
    by (simp add: sum.distrib sum_distrib_left)
  finally show ?thesis by (simp add: sum_index)
qed

lemma trend_slope_linear_vals:
  fixes vals :: "rat list"
  assumes len: "3 \<le> length vals"
    and lin: "\<And>i. i < length vals \<Longrightarrow> vals ! i = a + b * of_nat i"
  defines "x \<equiv> (of_nat (length vals) - 1) / 2"
  shows "sum_list vals / of_nat (length vals) = a + b * x"
    and "slope_num vals x (a + b * x) = b * slope_den (length vals) x"
proof -
  have n0: "(of_nat (length vals) :: rat) \<noteq> 0" using len by auto
  have "sum_list vals = of_nat (length vals) * a
      + b * (of_nat (length vals) * (of_nat (length vals) - 1) / 2)"
    by (rule sum_linear) (rule lin)
  then show "sum_list vals / of_nat (length vals) = a + b * x"
    unfolding x_def using n0 by (simp add: field_simps)
  have "slope_num vals x (a + b * x) = (\<Sum>i = 0..<length vals. b * (of_nat i - x)\<^sup>2)"
    unfolding slope_num_sum
    by (rule sum.cong) (simp_all add: lin power2_eq_square algebra_simps)
  then show "slope_num vals x (a + b * x) = b * slope_den (length vals) x"
    by (simp add: slope_den_sum sum_distrib_left)
qed

lemma count_below_takeWhile:
  "count_below t xs c = c + length (takeWhile (\<lambda>d. val d < t) xs)"
  by (induction xs arbitrary: c) auto

lemma count_above_takeWhile:
  "count_above t xs c = c + length (takeWhile (\<lambda>d. val d > t) xs)"
  by (induction xs arbitrary: c) auto

lemma takeWhile_rev_run:
  assumes "\<forall>d\<in>set run. P d" and "pre = [] \<or> \<not> P (last pre)"
  shows "takeWhile P (rev (pre @ run)) = rev run"
proof (cases "pre = []")
  case True
  then show ?thesis using assms by simp
next
  case False
  then obtain ys y where pre: "pre = ys @ [y]" by (metis rev_exhaust)
  have "takeWhile P (rev run @ y # rev ys) = rev run @ takeWhile P (y # rev ys)"
    by (rule takeWhile_append2) (use assms(1) in auto)
  then show ?thesis using assms(2) pre by simp
qed

section \<open>The rule groups only append, and never fail\<close>

lemma sleep_duration_rules_appends:
  assumes "sleep_duration_rules sleep_dur fs = Inr fs'"
  shows "\<exists>new. fs' = fs @ new \<and> subseq (map detector_key new)
           [(''sleep'', ''sleep_low_duration'', ''warning''), (''sleep'', ''sleep_declining'', ''warning'')]"
  using assms unfolding sleep_duration_rules_def
  by (auto simp: ebind_def Let_def avg_map_Some detector_key_def num_of_def split: if_splits sum.splits option.splits)

lemma sleep_score_rules_appends:
  assumes "sleep_score_rules x fs = Inr fs'"
  shows "\<exists>new. fs' = fs @ new \<and> subseq (map detector_key new)
           [(''sleep'', ''sleep_low_score'', ''warning'')]"
  using assms unfolding sleep_score_rules_def
  by (auto simp: ebind_def eand_def Let_def avg_map avg_map_Some detector_key_def num_of_def
      split: if_splits sum.splits option.splits)

lemma hrv_rules_appends:
  assumes "hrv_rules x fs = Inr fs'"
  shows "\<exists>new. fs' = fs @ new \<and> subseq (map detector_key new)
           [(''recovery'', ''hrv_below_baseline'', ''warning''), (''recovery'', ''hrv_weekly_drop'', ''alert'')]"
  using assms unfolding hrv_rules_def
  by (auto simp: ebind_def eand_def Let_def avg_map avg_map_Some detector_key_def num_of_def
      split: if_splits sum.splits option.splits)

lemma rhr_rules_appends:
  assumes "rhr_rules x fs = Inr fs'"
  shows "\<exists>new. fs' = fs @ new \<and> subseq (map detector_key new)
           [(''recovery'', ''rhr_elevated'', ''warning''), (''recovery'', ''rhr_trending_up'', ''warning'')]"
  using assms unfolding rhr_rules_def
  by (auto simp: ebind_def eand_def Let_def avg_map avg_map_Some detector_key_def num_of_def
      split: if_splits sum.splits option.splits)

lemma body_battery_rules_appends:
  assumes "body_battery_rules x fs = Inr fs'"
  shows "\<exists>new. fs' = fs @ new \<and> subseq (map detector_key new)
           [(''recovery'', ''body_battery_low'', ''warning'')]"
  using assms unfolding body_battery_rules_def
  by (auto simp: ebind_def eand_def Let_def avg_map avg_map_Some detector_key_def num_of_def
      split: if_splits sum.splits option.splits)

lemma stress_rules_appends:
  assumes "stress_rules x fs = Inr fs'"
  shows "\<exists>new. fs' = fs @ new \<and> subseq (map detector_key new)
           [(''stress'', ''stress_high'', ''warning''), (''stress'', ''stress_trending_up'', ''warning'')]"
  using assms unfolding stress_rules_def
  by (auto simp: ebind_def eand_def Let_def avg_map avg_map_Some detector_key_def num_of_def
      split: if_splits sum.splits option.splits)

lemma weight_rules_appends:
  assumes "weight_rules today data x fs = Inr fs'"
  shows "\<exists>new. fs' = fs @ new \<and> subseq (map detector_key new)
           [(''body_composition'', ''weight_no_data'', ''info''), (''body_composition'', ''weight_rapid_gain'', ''warning''), (''body_composition'', ''weight_plateau'', ''info'')]"
  using assms unfolding weight_rules_def
  by (auto simp: ebind_def eand_def Let_def avg_map avg_map_Some detector_key_def num_of_def
      split: if_splits sum.splits option.splits)

lemma steps_rules_appends:
  assumes "steps_rules x fs = Inr fs'"
  shows "\<exists>new. fs' = fs @ new \<and> subseq (map detector_key new)
           [(''activity'', ''steps_low'', ''info'')]"
  using assms unfolding steps_rules_def
  by (auto simp: ebind_def eand_def Let_def avg_map avg_map_Some detector_key_def num_of_def
      split: if_splits sum.splits option.splits)

lemma training_load_rules_appends:
  assumes "training_load_rules x fs = Inr fs'"
  shows "\<exists>new. fs' = fs @ new \<and> subseq (map detector_key new)
           [(''activity'', ''training_load_spike'', ''warning'')]"
  using assms unfolding training_load_rules_def
  by (auto simp: ebind_def eand_def Let_def avg_map avg_map_Some detector_key_def num_of_def
      split: if_splits sum.splits option.splits)

lemma vo2max_rules_appends:
  assumes "vo2max_rules x fs = Inr fs'"
  shows "\<exists>new. fs' = fs @ new \<and> subseq (map detector_key new)
           [(''activity'', ''vo2max_declining'', ''warning'')]"
  using assms unfolding vo2max_rules_def
  by (auto simp: ebind_def eand_def Let_def avg_map avg_map_Some detector_key_def num_of_def
      split: if_splits sum.splits option.splits)

lemma correlation_rules_appends:
  assumes "correlation_rules sd rhr hrv tload fs = Inr fs'"
  shows "\<exists>new. fs' = fs @ new \<and> subseq (map detector_key new)
           [(''correlation'', ''recovery_deficit'', ''alert''), (''correlation'', ''overtraining_risk'', ''alert'')]"
  using assms unfolding correlation_rules_def
  by (auto simp: ebind_def eand_def Let_def avg_map avg_map_Some detector_key_def num_of_def
      split: if_splits sum.splits option.splits)

lemma sleep_duration_rules_total: "\<exists>fs'. sleep_duration_rules x fs = Inr fs'"
proof -
  obtain r where r: "trend_slope x 14 = Inr r" using trend_slope_total by blast
  show ?thesis unfolding sleep_duration_rules_def
    by (simp add: Let_def r avg_map_Some num_of_def recent_values_empty_iff split: option.splits)
qed

lemma sleep_score_rules_total: "\<exists>fs'. sleep_score_rules x fs = Inr fs'"
  unfolding sleep_score_rules_def
  by (simp add: Let_def avg_map_Some num_of_def recent_values_empty_iff)

lemma hrv_rules_total: "\<exists>fs'. hrv_rules x fs = Inr fs'"
  unfolding hrv_rules_def
  by (auto simp: Let_def avg_map avg_map_Some num_of_def truthy_def eand_def py_div_def
        recent_values_empty_iff split: option.splits)

lemma rhr_rules_total: "\<exists>fs'. rhr_rules x fs = Inr fs'"
proof -
  obtain r where r: "trend_slope x 14 = Inr r" using trend_slope_total by blast
  show ?thesis unfolding rhr_rules_def
    by (auto simp: Let_def r avg_map avg_map_Some num_of_def truthy_def eand_def py_div_def
        py_last_Inr split: option.splits)
qed

lemma body_battery_rules_total: "\<exists>fs'. body_battery_rules x fs = Inr fs'"
proof (cases "x = []")
  case True
  then show ?thesis by (simp add: body_battery_rules_def)
next
  case False
  then obtain m where "py_max (recent_values x 3) = Inr m"
    using py_max_Inr[of "recent_values x 3"] by (auto simp: recent_values_empty_iff)
  then show ?thesis by (simp add: body_battery_rules_def Let_def)
qed

lemma stress_rules_total: "\<exists>fs'. stress_rules x fs = Inr fs'"
proof -
  obtain r where r: "trend_slope x 14 = Inr r" using trend_slope_total by blast
  show ?thesis unfolding stress_rules_def
    by (simp add: Let_def r avg_map_Some num_of_def recent_values_empty_iff split: option.splits)
qed

lemma has_training_total: "\<exists>b. has_training x = Inr b"
  unfolding has_training_def
  by (auto simp: avg_map_Some num_of_def truthy_def eand_def split: option.splits)

lemma steps_rules_total: "\<exists>fs'. steps_rules x fs = Inr fs'"
  unfolding steps_rules_def
  by (auto simp: Let_def avg_map_Some num_of_def truthy_def eand_def split: option.splits)

lemma training_load_rules_total: "\<exists>fs'. training_load_rules x fs = Inr fs'"
  unfolding training_load_rules_def
  by (auto simp: Let_def avg_map avg_map_Some num_of_def truthy_def eand_def py_div_def split: option.splits)

lemma vo2max_rules_total: "\<exists>fs'. vo2max_rules x fs = Inr fs'"
proof -
  obtain r where r: "trend_slope x 14 = Inr r" using trend_slope_total by blast
  show ?thesis unfolding vo2max_rules_def
    by (simp add: Let_def r split: option.splits)
qed

lemma poor_sleep_total: "\<exists>b. poor_sleep x = Inr b"
  unfolding poor_sleep_def
  by (auto simp: avg_map_Some num_of_def truthy_def eand_def split: option.splits)

lemma elevated_rhr_total: "\<exists>b. elevated_rhr x = Inr b"
  unfolding elevated_rhr_def
  by (auto simp: avg_map num_of_def truthy_def eand_def py_last_Inr split: option.splits)

lemma low_hrv_total: "\<exists>b. low_hrv x = Inr b"
  unfolding low_hrv_def
  by (auto simp: avg_map avg_map_Some num_of_def truthy_def eand_def split: option.splits)

lemma high_load_total: "\<exists>b. high_load x = Inr b"
  unfolding high_load_def
  by (auto simp: avg_map avg_map_Some num_of_def truthy_def eand_def split: option.splits)

lemma declining_hrv_total: "\<exists>b. declining_hrv x = Inr b"
proof -
  obtain r where r: "trend_slope x 7 = Inr r" using trend_slope_total by blast
  show ?thesis unfolding declining_hrv_def
    by (auto simp: r num_of_def eand_def split: option.splits)
qed

lemma correlation_rules_total: "\<exists>fs'. correlation_rules sd rhr hrv tload fs = Inr fs'"
proof -
  obtain ps er lh hl dh where
    "poor_sleep sd = Inr ps" "elevated_rhr rhr = Inr er" "low_hrv hrv = Inr lh"
    "high_load tload = Inr hl" "declining_hrv hrv = Inr dh"
    using poor_sleep_total elevated_rhr_total low_hrv_total high_load_total declining_hrv_total
    by metis
  then show ?thesis unfolding correlation_rules_def by simp
qed

lemma list10:
  assumes "length s = 10"
  obtains c0 c1 c2 c3 c4 c5 c6 c7 c8 c9 where "s = [c0, c1, c2, c3, c4, c5, c6, c7, c8, c9]"
  using assms by (auto simp: numeral_eq_Suc length_Suc_conv)

lemma digit_not_dash: "is_digit c \<Longrightarrow> c \<noteq> CHR ''-''"
  by (auto simp: is_digit_def)

lemma digit_not_blank: "is_digit c \<Longrightarrow> c \<noteq> CHR '' ''"
  by (auto simp: is_digit_def)

lemma days_in_month_le: "days_in_month y m \<le> 31"
  by (simp add: days_in_month_def)

lemma valid_date_parses:
  assumes "valid_date_string s"
  shows "\<exists>d. strptime_ymd s = Inr d"
proof -
  from assms have "length s = 10" by (simp add: valid_date_string_def)
  then obtain c0 c1 c2 c3 c4 c5 c6 c7 c8 c9
    where s: "s = [c0, c1, c2, c3, c4, c5, c6, c7, c8, c9]" by (rule list10)
  from assms have dashes: "c4 = CHR ''-''" "c7 = CHR ''-''"
    and digits: "is_digit c0" "is_digit c1" "is_digit c2" "is_digit c3"
      "is_digit c5" "is_digit c6" "is_digit c8" "is_digit c9"
    and year: "1 \<le> int_of_digits [c0, c1, c2, c3]"
    and month: "1 \<le> int_of_digits [c5, c6]" "int_of_digits [c5, c6] \<le> 12"
    and day: "1 \<le> int_of_digits [c8, c9]"
      "int_of_digits [c8, c9] \<le> days_in_month (int_of_digits [c0, c1, c2, c3]) (int_of_digits [c5, c6])"
    unfolding s valid_date_string_def by (simp_all add: Let_def)
  have f: "split_on CHR ''-'' s = [[c0, c1, c2, c3], [c5, c6], [c8, c9]]"
    unfolding s using dashes digits[THEN digit_not_dash] by simp
  have d31: "int_of_digits [c8, c9] \<le> 31"
    using day(2) days_in_month_le le_trans by blast
  show ?thesis
    unfolding strptime_ymd_def f
    using digits digits(7)[THEN digit_not_blank] year month day d31
    by (simp add: month_field_def day_field_def Let_def)
qed

lemma weight_rules_total:
  assumes "x \<noteq> [] \<longrightarrow> valid_date_string (date (last x))"
  shows "\<exists>fs'. weight_rules today data x fs = Inr fs'"
proof (cases "x = []")
  case True
  then show ?thesis by (simp add: weight_rules_def)
next
  case False
  then obtain d where d: "strptime_ymd (date (last x)) = Inr d"
    using assms valid_date_parses by blast
  obtain ht where ht: "has_training (dict_get data ''training_load'') = Inr ht"
    using has_training_total by blast
  show ?thesis unfolding weight_rules_def
    using False
    by (auto simp: Let_def d ht py_last_Inr avg_map avg_map_Some num_of_def truthy_def
        split: option.splits)
qed

lemma run_rules_total:
  assumes "dict_get data ''weight'' \<noteq> [] \<longrightarrow> valid_date_string (date (last (dict_get data ''weight'')))"
  shows "\<exists>fs. run_rules today data = Inr fs"
proof -
  obtain f1 where f1: "sleep_duration_rules (dict_get data ''sleep_duration'') [] = Inr f1"
    using sleep_duration_rules_total by blast
  obtain f2 where f2: "sleep_score_rules (dict_get data ''sleep_score'') f1 = Inr f2"
    using sleep_score_rules_total by blast
  obtain f3 where f3: "hrv_rules (dict_get data ''hrv'') f2 = Inr f3"
    using hrv_rules_total by blast
  obtain f4 where f4: "rhr_rules (dict_get data ''resting_hr'') f3 = Inr f4"
    using rhr_rules_total by blast
  obtain f5 where f5: "body_battery_rules (dict_get data ''body_battery'') f4 = Inr f5"
    using body_battery_rules_total by blast
  obtain f6 where f6: "stress_rules (dict_get data ''stress'') f5 = Inr f6"
    using stress_rules_total by blast
  obtain f7 where f7: "weight_rules today data (dict_get data ''weight'') f6 = Inr f7"
    using weight_rules_total[OF assms] by blast
  obtain f8 where f8: "steps_rules (dict_get data ''steps'') f7 = Inr f8"
    using steps_rules_total by blast
  obtain f9 where f9: "training_load_rules (dict_get data ''training_load'') f8 = Inr f9"
    using training_load_rules_total by blast
  obtain f10 where f10: "vo2max_rules (dict_get data ''vo2max'') f9 = Inr f10"
    using vo2max_rules_total by blast
  obtain f11 where f11: "correlation_rules (dict_get data ''sleep_duration'')
      (dict_get data ''resting_hr'') (dict_get data ''hrv'') (dict_get data ''training_load'') f10 = Inr f11"
    using correlation_rules_total by blast
  show ?thesis
    unfolding run_rules_def Let_def
    by (simp add: f1 f2 f3 f4 f5 f6 f7 f8 f9 f10 f11)
qed

section \<open>Statistical helpers: undefined results, never a failure\<close>

lemma avg_total: "\<exists>r. avg values = Inr r"
proof -
  have "valid \<noteq> [] \<Longrightarrow> (of_nat (length valid) :: rat) \<noteq> 0" for valid :: "rat list"
    by simp
  then show ?thesis
    unfolding avg_def Let_def py_div_def by (simp del: of_nat_eq_0_iff)
qed

lemma length_slice_from_le: "length (slice_from xs s) \<le> length xs"
  by (simp add: slice_from_def)

text \<open>
  C5.  \<open>avg\<close> of the empty list is \<open>None\<close> and \<open>avg\<close> never raises; \<open>trend_slope\<close> of
  a series with fewer than three points is \<open>None\<close> and \<open>trend_slope\<close> never raises; for
  three or more points the denominator, the sum of the squared deviations of the indices
  from their mean, is not zero, so that \<open>trend_slope\<close> then returns a number and its
  \<open>None\<close> branch for a zero denominator is never taken.
\<close>

theorem avg_trend_slope_undefined_never_raise:
  "avg [] = Inr None
   \<and> (\<exists>r. avg vs = Inr r)
   \<and> (length data < 3 \<longrightarrow> trend_slope data n = Inr None)
   \<and> (\<exists>r. trend_slope data n = Inr r)
   \<and> (3 \<le> n_pts \<longrightarrow> slope_den n_pts ((of_nat n_pts - 1) / 2) \<noteq> 0)
   \<and> (3 \<le> length (slice_from data (- n)) \<longrightarrow> (\<exists>s. trend_slope data n = Inr (Some s)))"
proof -
  have a: "avg [] = Inr None" by (simp add: avg_def)
  have b: "length data < 3 \<longrightarrow> trend_slope data n = Inr None"
    using length_slice_from_le[of data "- n"] by (auto intro: trend_slope_short)
  have c: "3 \<le> n_pts \<longrightarrow> slope_den n_pts ((of_nat n_pts - 1) / 2) \<noteq> 0"
    using slope_den_pos[of n_pts] by auto
  show ?thesis
    using a b c avg_total[of vs] trend_slope_total[of data n] trend_slope_long[of data n]
    by blast
qed

theorem avg_trend_slope_undefined_never_raise_witness:
  "length (january [1, 2]) < 3
   \<and> trend_slope (january [1, 2]) 14 = Inr None
   \<and> (3::nat) \<le> 3 \<and> slope_den 3 ((of_nat 3 - 1) / 2) \<noteq> 0
   \<and> 3 \<le> length (slice_from (january [1, 2, 4]) (- 14))
   \<and> (\<exists>s. trend_slope (january [1, 2, 4]) 14 = Inr (Some s))"
  using avg_trend_slope_undefined_never_raise [of "[]" "january [1, 2]" 14 3]
    avg_trend_slope_undefined_never_raise [of "[]" "january [1, 2, 4]" 14 3]
  by (simp add: january_def slice_from_def clamp_index_def)

section \<open>The slope of a linear series\<close>

text \<open>
  C4.  When the last \<open>n\<close> points of a series are at least three and their values are
  \<open>a + b * i\<close> at index \<open>i\<close>, \<open>trend_slope\<close> returns \<open>b\<close>, whatever the intercept \<open>a\<close>.
  Arithmetic is exact here, so the result is \<open>b\<close> itself.
\<close>

theorem trend_slope_linear:
  assumes "3 \<le> length (slice_from data (- n))"
    and "\<forall>i < length (slice_from data (- n)). val (slice_from data (- n) ! i) = a + b * of_nat i"
  shows "trend_slope data n = Inr (Some b)"
proof -
  define pts where "pts = slice_from data (- n)"
  define vals where "vals = map val pts"
  define x :: rat where "x = (of_nat (length vals) - 1) / 2"
  have len: "3 \<le> length vals" using assms(1) by (simp add: vals_def pts_def)
  have lin: "\<And>i. i < length vals \<Longrightarrow> vals ! i = a + b * of_nat i"
    using assms(2) by (simp add: vals_def pts_def)
  note L = trend_slope_linear_vals[OF len lin, folded x_def]
  have den: "slope_den (length vals) x \<noteq> 0"
    using slope_den_pos[of "length vals"] len by (simp add: x_def)
  have n0: "(of_nat (length vals) :: rat) \<noteq> 0" using len by auto
  have "trend_slope data n =
      ebind (py_div (sum_list vals) (of_nat (length vals))) (\<lambda>y_mean.
         if slope_den (length vals) x \<noteq> 0
         then ebind (py_div (slope_num vals x y_mean) (slope_den (length vals) x)) (\<lambda>s. Inr (Some s))
         else Inr None)"
    using len by (simp add: trend_slope_def Let_def vals_def pts_def x_def cong: if_cong)
  also have "\<dots> = Inr (Some b)"
    using den n0 by (simp add: py_div_def ebind_def L)
  finally show ?thesis .
qed


theorem trend_slope_linear_witness:
  "3 \<le> length (slice_from (january [1, 3, 5]) (- 14))
   \<and> map val (slice_from (january [1, 3, 5]) (- 14)) = [1 + 2 * 0, 1 + 2 * 1, 1 + 2 * 2]
   \<and> trend_slope (january [1, 3, 5]) 14 = Inr (Some 2)"
proof -
  have s: "slice_from (january [1, 3, 5]) (- 14) =
      [\<lparr>date = ''2024-01-01'', val = 1\<rparr>, \<lparr>date = ''2024-01-02'', val = 3\<rparr>,
       \<lparr>date = ''2024-01-03'', val = 5\<rparr>]"
    by (simp add: january_def slice_from_def clamp_index_def enumerate_eq_zip upt_conv_Cons)
  have h1: "3 \<le> length (slice_from (january [1, 3, 5]) (- 14))"
    unfolding s by simp
  have h2: "\<forall>i < length (slice_from (january [1, 3, 5]) (- 14)).
         val (slice_from (january [1, 3, 5]) (- 14) ! i) = 1 + 2 * of_nat i"
    unfolding s by (auto simp: less_Suc_eq numeral_3_eq_3)
  have h3: "map val (slice_from (january [1, 3, 5]) (- 14)) = [1 + 2 * 0, 1 + 2 * 1, 1 + 2 * 2]"
    unfolding s by simp
  from trend_slope_linear [OF h1 h2] h1 h3 show ?thesis by blast
qed

section \<open>Consecutive runs\<close>

lemma consecutive_below_vals:
  "consecutive_below data t w =
     length (takeWhile (\<lambda>v. v < t) (rev (slice_from (map val data) (- w))))"
proof -
  have "length (takeWhile (\<lambda>d. val d < t) xs) = length (takeWhile (\<lambda>v. v < t) (map val xs))"
    for xs :: "point list"
    by (induction xs) simp_all
  then show ?thesis
    by (simp add: consecutive_below_def count_below_takeWhile slice_from_def drop_map rev_map)
qed

lemma consecutive_above_vals:
  "consecutive_above data t w =
     length (takeWhile (\<lambda>v. t < v) (rev (slice_from (map val data) (- w))))"
proof -
  have "length (takeWhile (\<lambda>d. t < val d) xs) = length (takeWhile (\<lambda>v. t < v) (map val xs))"
    for xs :: "point list"
    by (induction xs) simp_all
  then show ?thesis
    by (simp add: consecutive_above_def count_above_takeWhile slice_from_def drop_map rev_map)
qed

text \<open>
  C3, as stated, fails: the two points below are four calendar days apart and both lie
  under the threshold, and \<open>consecutive_below\<close> counts both; a gap between the dates
  does not end the run.
\<close>

theorem consecutive_below_counts_across_date_gap:
  "strptime_ymd ''2024-01-01'' = Inr 738886
   \<and> strptime_ymd ''2024-01-05'' = Inr 738890
   \<and> consecutive_below
        [\<lparr>date = ''2024-01-01'', val = 1\<rparr>, \<lparr>date = ''2024-01-05'', val = 1\<rparr>] 5 7 = 2"
  by (simp add: consecutive_below_def slice_from_def clamp_index_def
      strptime_ymd_def month_field_def day_field_def is_digit_def int_of_digits_def
      digit_value_def days_in_month_def is_leap_def toordinal_def days_before_year_def
      days_before_month_def upt_conv_Cons)

text \<open>
  C3, amended.  For a window \<open>w\<close> of at least one point: when the last \<open>w\<close> points of
  the series end in a run of points all strictly below the threshold, and the point of
  the window just before the run (if there is one) is not below it, \<open>consecutive_below\<close>
  returns the length of the run, which is at most \<open>w\<close>; \<open>consecutive_above\<close> does the
  same for values strictly above the threshold.  Both results depend on the values only:
  changing the dates of the points changes neither.
\<close>

theorem consecutive_counts_trailing_run:
  assumes "0 < w" and "drop (length data - nat w) data = pre @ run"
  shows "((\<forall>d\<in>set run. val d < t) \<and> (pre = [] \<or> \<not> val (last pre) < t)
            \<longrightarrow> consecutive_below data t w = length run \<and> length run \<le> nat w)
       \<and> ((\<forall>d\<in>set run. t < val d) \<and> (pre = [] \<or> \<not> t < val (last pre))
            \<longrightarrow> consecutive_above data t w = length run \<and> length run \<le> nat w)
       \<and> consecutive_below (map (\<lambda>d. d\<lparr>date := g d\<rparr>) data) t w = consecutive_below data t w
       \<and> consecutive_above (map (\<lambda>d. d\<lparr>date := g d\<rparr>) data) t w = consecutive_above data t w"
proof -
  have "length (pre @ run) \<le> nat w"
    unfolding assms(2)[symmetric] by simp
  then have le: "length run \<le> nat w" by simp
  have cb: "consecutive_below data t w = length (takeWhile (\<lambda>d. val d < t) (rev (pre @ run)))"
    using assms by (simp add: consecutive_below_def slice_from_last count_below_takeWhile)
  have ca: "consecutive_above data t w = length (takeWhile (\<lambda>d. t < val d) (rev (pre @ run)))"
    using assms by (simp add: consecutive_above_def slice_from_last count_above_takeWhile)
  have below: "(\<forall>d\<in>set run. val d < t) \<and> (pre = [] \<or> \<not> val (last pre) < t)
            \<longrightarrow> consecutive_below data t w = length run \<and> length run \<le> nat w"
  proof (intro impI)
    assume H: "(\<forall>d\<in>set run. val d < t) \<and> (pre = [] \<or> \<not> val (last pre) < t)"
    have "takeWhile (\<lambda>d. val d < t) (rev (pre @ run)) = rev run"
      by (rule takeWhile_rev_run) (use H in blast)+
    then show "consecutive_below data t w = length run \<and> length run \<le> nat w"
      using cb le by simp
  qed
  have above: "(\<forall>d\<in>set run. t < val d) \<and> (pre = [] \<or> \<not> t < val (last pre))
            \<longrightarrow> consecutive_above data t w = length run \<and> length run \<le> nat w"
  proof (intro impI)
    assume H: "(\<forall>d\<in>set run. t < val d) \<and> (pre = [] \<or> \<not> t < val (last pre))"
    have "takeWhile (\<lambda>d. t < val d) (rev (pre @ run)) = rev run"
      by (rule takeWhile_rev_run) (use H in blast)+
    then show "consecutive_above data t w = length run \<and> length run \<le> nat w"
      using ca le by simp
  qed
  have vals: "map val (map (\<lambda>d. d\<lparr>date := g d\<rparr>) data) = map val data"
    by simp
  show ?thesis
    using below above unfolding consecutive_below_vals consecutive_above_vals vals by simp
qed

theorem consecutive_counts_trailing_run_witness:
  "(0::int) < 7
   \<and> drop (length (january [10, 1, 1]) - nat 7) (january [10, 1, 1])
       = [\<lparr>date = ''2024-01-01'', val = 10\<rparr>]
         @ [\<lparr>date = ''2024-01-02'', val = 1\<rparr>, \<lparr>date = ''2024-01-03'', val = 1\<rparr>]
   \<and> \<not> val (last [\<lparr>date = ''2024-01-01'', val = 10\<rparr>]) < 5
   \<and> consecutive_below (january [10, 1, 1]) 5 7 = 2"
proof -
  have h1: "(0::int) < 7" by simp
  have h2: "drop (length (january [10, 1, 1]) - nat 7) (january [10, 1, 1])
       = [\<lparr>date = ''2024-01-01'', val = 10\<rparr>]
         @ [\<lparr>date = ''2024-01-02'', val = 1\<rparr>, \<lparr>date = ''2024-01-03'', val = 1\<rparr>]"
    by (simp add: january_def enumerate_eq_zip upt_conv_Cons)
  have h3: "\<forall>d\<in>set [\<lparr>date = ''2024-01-02'', val = 1\<rparr>, \<lparr>date = ''2024-01-03'', val = 1\<rparr>]. val d < 5"
    by simp
  have h4: "\<not> val (last [\<lparr>date = ''2024-01-01'', val = 10\<rparr>]) < 5"
    by simp
  from consecutive_counts_trailing_run [OF h1 h2, of 5] h3 h4
  have "consecutive_below (january [10, 1, 1]) 5 7 = 2" by simp
  with h1 h2 h4 show ?thesis by (intro conjI)
qed

section \<open>The findings of a whole run\<close>

lemma run_rules_chain:
  assumes "run_rules today data = Inr fs"
  shows "\<exists>f1 f2 f3 f4 f5 f6 f7 f8 f9 f10.
     sleep_duration_rules (dict_get data ''sleep_duration'') [] = Inr f1 \<and>
     sleep_score_rules (dict_get data ''sleep_score'') f1 = Inr f2 \<and>
     hrv_rules (dict_get data ''hrv'') f2 = Inr f3 \<and>
     rhr_rules (dict_get data ''resting_hr'') f3 = Inr f4 \<and>
     body_battery_rules (dict_get data ''body_battery'') f4 = Inr f5 \<and>
     stress_rules (dict_get data ''stress'') f5 = Inr f6 \<and>
     weight_rules today data (dict_get data ''weight'') f6 = Inr f7 \<and>
     steps_rules (dict_get data ''steps'') f7 = Inr f8 \<and>
     training_load_rules (dict_get data ''training_load'') f8 = Inr f9 \<and>
     vo2max_rules (dict_get data ''vo2max'') f9 = Inr f10 \<and>
     correlation_rules (dict_get data ''sleep_duration'') (dict_get data ''resting_hr'')
       (dict_get data ''hrv'') (dict_get data ''training_load'') f10 = Inr fs"
  using assms unfolding run_rules_def Let_def
  by (simp add: ebind_def split: sum.splits)

lemma run_rules_parts:
  assumes "run_rules today data = Inr fs"
  shows "\<exists>n1 n2 n3 n4 n5 n6 n7 n8 n9 n10 n11.
     fs = n1 @ n2 @ n3 @ n4 @ n5 @ n6 @ n7 @ n8 @ n9 @ n10 @ n11 \<and>
     hrv_rules (dict_get data ''hrv'') (n1 @ n2) = Inr ((n1 @ n2) @ n3) \<and>
     steps_rules (dict_get data ''steps'') (n1 @ n2 @ n3 @ n4 @ n5 @ n6 @ n7)
       = Inr ((n1 @ n2 @ n3 @ n4 @ n5 @ n6 @ n7) @ n8) \<and>
     subseq (map detector_key n1)
       [(''sleep'', ''sleep_low_duration'', ''warning''), (''sleep'', ''sleep_declining'', ''warning'')] \<and>
     subseq (map detector_key n2) [(''sleep'', ''sleep_low_score'', ''warning'')] \<and>
     subseq (map detector_key n3)
       [(''recovery'', ''hrv_below_baseline'', ''warning''), (''recovery'', ''hrv_weekly_drop'', ''alert'')] \<and>
     subseq (map detector_key n4)
       [(''recovery'', ''rhr_elevated'', ''warning''), (''recovery'', ''rhr_trending_up'', ''warning'')] \<and>
     subseq (map detector_key n5) [(''recovery'', ''body_battery_low'', ''warning'')] \<and>
     subseq (map detector_key n6)
       [(''stress'', ''stress_high'', ''warning''), (''stress'', ''stress_trending_up'', ''warning'')] \<and>
     subseq (map detector_key n7)
       [(''body_composition'', ''weight_no_data'', ''info''),
        (''body_composition'', ''weight_rapid_gain'', ''warning''),
        (''body_composition'', ''weight_plateau'', ''info'')] \<and>
     subseq (map detector_key n8) [(''activity'', ''steps_low'', ''info'')] \<and>
     subseq (map detector_key n9) [(''activity'', ''training_load_spike'', ''warning'')] \<and>
     subseq (map detector_key n10) [(''activity'', ''vo2max_declining'', ''warning'')] \<and>
     subseq (map detector_key n11)
       [(''correlation'', ''recovery_deficit'', ''alert''), (''correlation'', ''overtraining_risk'', ''alert'')]"
proof -
  from run_rules_chain[OF assms] obtain f1 f2 f3 f4 f5 f6 f7 f8 f9 f10 where c:
     "sleep_duration_rules (dict_get data ''sleep_duration'') [] = Inr f1"
     "sleep_score_rules (dict_get data ''sleep_score'') f1 = Inr f2"
     "hrv_rules (dict_get data ''hrv'') f2 = Inr f3"
     "rhr_rules (dict_get data ''resting_hr'') f3 = Inr f4"
     "body_battery_rules (dict_get data ''body_battery'') f4 = Inr f5"
     "stress_rules (dict_get data ''stress'') f5 = Inr f6"
     "weight_rules today data (dict_get data ''weight'') f6 = Inr f7"
     "steps_rules (dict_get data ''steps'') f7 = Inr f8"
     "training_load_rules (dict_get data ''training_load'') f8 = Inr f9"
     "vo2max_rules (dict_get data ''vo2max'') f9 = Inr f10"
     "correlation_rules (dict_get data ''sleep_duration'') (dict_get data ''resting_hr'')
       (dict_get data ''hrv'') (dict_get data ''training_load'') f10 = Inr fs"
    by blast
  from sleep_duration_rules_appends[OF c(1)] obtain n1 where n1: "f1 = n1"
    "subseq (map detector_key n1)
       [(''sleep'', ''sleep_low_duration'', ''warning''), (''sleep'', ''sleep_declining'', ''warning'')]"
    by auto
  from sleep_score_rules_appends[OF c(2)] obtain n2 where n2: "f2 = f1 @ n2"
    "subseq (map detector_key n2) [(''sleep'', ''sleep_low_score'', ''warning'')]" by auto
  from hrv_rules_appends[OF c(3)] obtain n3 where n3: "f3 = f2 @ n3"
    "subseq (map detector_key n3)
       [(''recovery'', ''hrv_below_baseline'', ''warning''), (''recovery'', ''hrv_weekly_drop'', ''alert'')]"
    by auto
  from rhr_rules_appends[OF c(4)] obtain n4 where n4: "f4 = f3 @ n4"
    "subseq (map detector_key n4)
       [(''recovery'', ''rhr_elevated'', ''warning''), (''recovery'', ''rhr_trending_up'', ''warning'')]"
    by auto
  from body_battery_rules_appends[OF c(5)] obtain n5 where n5: "f5 = f4 @ n5"
    "subseq (map detector_key n5) [(''recovery'', ''body_battery_low'', ''warning'')]" by auto
  from stress_rules_appends[OF c(6)] obtain n6 where n6: "f6 = f5 @ n6"
    "subseq (map detector_key n6)
       [(''stress'', ''stress_high'', ''warning''), (''stress'', ''stress_trending_up'', ''warning'')]"
    by auto
  from weight_rules_appends[OF c(7)] obtain n7 where n7: "f7 = f6 @ n7"
    "subseq (map detector_key n7)
       [(''body_composition'', ''weight_no_data'', ''info''),
        (''body_composition'', ''weight_rapid_gain'', ''warning''),
        (''body_composition'', ''weight_plateau'', ''info'')]" by auto
  from steps_rules_appends[OF c(8)] obtain n8 where n8: "f8 = f7 @ n8"
    "subseq (map detector_key n8) [(''activity'', ''steps_low'', ''info'')]" by auto
  from training_load_rules_appends[OF c(9)] obtain n9 where n9: "f9 = f8 @ n9"
    "subseq (map detector_key n9) [(''activity'', ''training_load_spike'', ''warning'')]" by auto
  from vo2max_rules_appends[OF c(10)] obtain n10 where n10: "f10 = f9 @ n10"
    "subseq (map detector_key n10) [(''activity'', ''vo2max_declining'', ''warning'')]" by auto
  from correlation_rules_appends[OF c(11)] obtain n11 where n11: "fs = f10 @ n11"
    "subseq (map detector_key n11)
       [(''correlation'', ''recovery_deficit'', ''alert''), (''correlation'', ''overtraining_risk'', ''alert'')]"
    by auto
  have fs: "fs = n1 @ n2 @ n3 @ n4 @ n5 @ n6 @ n7 @ n8 @ n9 @ n10 @ n11"
    by (simp add: n1(1) n2(1) n3(1) n4(1) n5(1) n6(1) n7(1) n8(1) n9(1) n10(1) n11(1))
  have h: "hrv_rules (dict_get data ''hrv'') (n1 @ n2) = Inr ((n1 @ n2) @ n3)"
    using c(3) by (simp add: n1(1) n2(1) n3(1))
  have s: "steps_rules (dict_get data ''steps'') (n1 @ n2 @ n3 @ n4 @ n5 @ n6 @ n7)
       = Inr ((n1 @ n2 @ n3 @ n4 @ n5 @ n6 @ n7) @ n8)"
    using c(8) by (simp add: n1(1) n2(1) n3(1) n4(1) n5(1) n6(1) n7(1) n8(1))
  show ?thesis
    using fs h s n1(2) n2(2) n3(2) n4(2) n5(2) n6(2) n7(2) n8(2) n9(2) n10(2) n11(2)
    by blast
qed

lemma run_rules_catalog:
  assumes "run_rules today data = Inr fs"
  shows "subseq (map detector_key fs) detector_catalog"
proof -
  from run_rules_parts[OF assms] obtain n1 n2 n3 n4 n5 n6 n7 n8 n9 n10 n11 where
    fs: "fs = n1 @ n2 @ n3 @ n4 @ n5 @ n6 @ n7 @ n8 @ n9 @ n10 @ n11" and
    p: "subseq (map detector_key n1)
       [(''sleep'', ''sleep_low_duration'', ''warning''), (''sleep'', ''sleep_declining'', ''warning'')]"
     "subseq (map detector_key n2) [(''sleep'', ''sleep_low_score'', ''warning'')]"
     "subseq (map detector_key n3)
       [(''recovery'', ''hrv_below_baseline'', ''warning''), (''recovery'', ''hrv_weekly_drop'', ''alert'')]"
     "subseq (map detector_key n4)
       [(''recovery'', ''rhr_elevated'', ''warning''), (''recovery'', ''rhr_trending_up'', ''warning'')]"
     "subseq (map detector_key n5) [(''recovery'', ''body_battery_low'', ''warning'')]"
     "subseq (map detector_key n6)
       [(''stress'', ''stress_high'', ''warning''), (''stress'', ''stress_trending_up'', ''warning'')]"
     "subseq (map detector_key n7)
       [(''body_composition'', ''weight_no_data'', ''info''),
        (''body_composition'', ''weight_rapid_gain'', ''warning''),
        (''body_composition'', ''weight_plateau'', ''info'')]"
     "subseq (map detector_key n8) [(''activity'', ''steps_low'', ''info'')]"
     "subseq (map detector_key n9) [(''activity'', ''training_load_spike'', ''warning'')]"
     "subseq (map detector_key n10) [(''activity'', ''vo2max_declining'', ''warning'')]"
     "subseq (map detector_key n11)
       [(''correlation'', ''recovery_deficit'', ''alert''), (''correlation'', ''overtraining_risk'', ''alert'')]"
    by blast
  have cat: "detector_catalog =
       [(''sleep'', ''sleep_low_duration'', ''warning''), (''sleep'', ''sleep_declining'', ''warning'')] @
       [(''sleep'', ''sleep_low_score'', ''warning'')] @
       [(''recovery'', ''hrv_below_baseline'', ''warning''), (''recovery'', ''hrv_weekly_drop'', ''alert'')] @
       [(''recovery'', ''rhr_elevated'', ''warning''), (''recovery'', ''rhr_trending_up'', ''warning'')] @
       [(''recovery'', ''body_battery_low'', ''warning'')] @
       [(''stress'', ''stress_high'', ''warning''), (''stress'', ''stress_trending_up'', ''warning'')] @
       [(''body_composition'', ''weight_no_data'', ''info''),
        (''body_composition'', ''weight_rapid_gain'', ''warning''),
        (''body_composition'', ''weight_plateau'', ''info'')] @
       [(''activity'', ''steps_low'', ''info'')] @
       [(''activity'', ''training_load_spike'', ''warning'')] @
       [(''activity'', ''vo2max_declining'', ''warning'')] @
       [(''correlation'', ''recovery_deficit'', ''alert''), (''correlation'', ''overtraining_risk'', ''alert'')]"
    by (simp add: detector_catalog_def)
  show ?thesis
    unfolding fs cat map_append
    by (intro list_emb_append_mono p)
qed




lemma valid_metrics_weight:
  assumes "valid_metrics data"
  shows "dict_get data ''weight'' \<noteq> [] \<longrightarrow> valid_date_string (date (last (dict_get data ''weight'')))"
  using assms by (auto simp: valid_metrics_def metric_columns_def list_all_iff)

section \<open>Evaluating the rules on sample inputs\<close>

lemma floor_rat_numeral [simp]:
  "\<lfloor>numeral a / numeral b :: rat\<rfloor> = numeral a div numeral b"
  using floor_divide_of_int_eq[of "numeral a" "numeral b", where ?'a = rat] by simp

lemma floor_rat_neg_numeral [simp]:
  "\<lfloor>- (numeral a / numeral b) :: rat\<rfloor> = - numeral a div numeral b"
  using floor_divide_of_int_eq[of "- numeral a" "numeral b", where ?'a = rat] by simp

lemmas helper_eval =
  dict_get_def consecutive_below_def consecutive_above_def slice_from_def slice_def
  clamp_index_def recent_values_def avg_def py_div_def trend_slope_def slope_num_def
  slope_den_def truthy_def num_of_def eand_def py_last_def py_max_def py_round_def
  py_round_n_def Let_def enumerate_eq_zip upt_conv_Cons

lemmas rules_eval =
  run_rules_def sleep_duration_rules_def sleep_score_rules_def hrv_rules_def rhr_rules_def
  body_battery_rules_def stress_rules_def weight_rules_def steps_rules_def
  training_load_rules_def vo2max_rules_def correlation_rules_def has_training_def
  poor_sleep_def elevated_rhr_def low_hrv_def high_load_def declining_hrv_def



lemma length_january: "length (january vs) = length vs"
  by (simp add: january_def)

section \<open>Totality of the rules engine\<close>



section \<open>Order of the findings\<close>

lemma subseq_keys_category:
  assumes "subseq (map detector_key new) cat" and "\<forall>k\<in>set cat. fst k = c"
  shows "list_all (\<lambda>f. category f = c) new"
proof -
  have "category f = c" if "f \<in> set new" for f
  proof -
    from that have "detector_key f \<in> set (map detector_key new)" by simp
    with assms(1) obtain k where "k \<in> set cat" "detector_key f = k"
      by (rule list_emb_set)
    with assms(2) show ?thesis by (auto simp: detector_key_def)
  qed
  then show ?thesis by (simp add: list_all_iff)
qed


text \<open>
  C8.  The findings of \<open>run_rules\<close> come in the order of the categories: the sleep
  findings, then recovery, stress, body composition, activity and correlation.  More
  precisely the list of their (category, rule, severity) triples is a subsequence of
  the detector catalogue, which lists the eighteen detectors in the order of the source;
  severity plays no part in the order.
\<close>

theorem run_rules_category_order:
  assumes "run_rules today data = Inr fs"
  shows "(\<exists>sl re st bo ac co. fs = sl @ re @ st @ bo @ ac @ co
            \<and> list_all (\<lambda>f. category f = ''sleep'') sl
            \<and> list_all (\<lambda>f. category f = ''recovery'') re
            \<and> list_all (\<lambda>f. category f = ''stress'') st
            \<and> list_all (\<lambda>f. category f = ''body_composition'') bo
            \<and> list_all (\<lambda>f. category f = ''activity'') ac
            \<and> list_all (\<lambda>f. category f = ''correlation'') co)
         \<and> subseq (map detector_key fs) detector_catalog"
proof -
  from run_rules_parts[OF assms] obtain n1 n2 n3 n4 n5 n6 n7 n8 n9 n10 n11 where
    fs: "fs = n1 @ n2 @ n3 @ n4 @ n5 @ n6 @ n7 @ n8 @ n9 @ n10 @ n11" and
    p: "subseq (map detector_key n1)
       [(''sleep'', ''sleep_low_duration'', ''warning''), (''sleep'', ''sleep_declining'', ''warning'')]"
     "subseq (map detector_key n2) [(''sleep'', ''sleep_low_score'', ''warning'')]"
     "subseq (map detector_key n3)
       [(''recovery'', ''hrv_below_baseline'', ''warning''), (''recovery'', ''hrv_weekly_drop'', ''alert'')]"
     "subseq (map detector_key n4)
       [(''recovery'', ''rhr_elevated'', ''warning''), (''recovery'', ''rhr_trending_up'', ''warning'')]"
     "subseq (map detector_key n5) [(''recovery'', ''body_battery_low'', ''warning'')]"
     "subseq (map detector_key n6)
       [(''stress'', ''stress_high'', ''warning''), (''stress'', ''stress_trending_up'', ''warning'')]"
     "subseq (map detector_key n7)
       [(''body_composition'', ''weight_no_data'', ''info''),
        (''body_composition'', ''weight_rapid_gain'', ''warning''),
        (''body_composition'', ''weight_plateau'', ''info'')]"
     "subseq (map detector_key n8) [(''activity'', ''steps_low'', ''info'')]"
     "subseq (map detector_key n9) [(''activity'', ''training_load_spike'', ''warning'')]"
     "subseq (map detector_key n10) [(''activity'', ''vo2max_declining'', ''warning'')]"
     "subseq (map detector_key n11)
       [(''correlation'', ''recovery_deficit'', ''alert''), (''correlation'', ''overtraining_risk'', ''alert'')]"
    by blast
  have c: "list_all (\<lambda>f. category f = ''sleep'') n1" "list_all (\<lambda>f. category f = ''sleep'') n2"
    "list_all (\<lambda>f. category f = ''recovery'') n3" "list_all (\<lambda>f. category f = ''recovery'') n4"
    "list_all (\<lambda>f. category f = ''recovery'') n5" "list_all (\<lambda>f. category f = ''stress'') n6"
    "list_all (\<lambda>f. category f = ''body_composition'') n7"
    "list_all (\<lambda>f. category f = ''activity'') n8" "list_all (\<lambda>f. category f = ''activity'') n9"
    "list_all (\<lambda>f. category f = ''activity'') n10" "list_all (\<lambda>f. category f = ''correlation'') n11"
    by (rule subseq_keys_category, rule p, simp)+
  have "\<exists>sl re st bo ac co. fs = sl @ re @ st @ bo @ ac @ co
            \<and> list_all (\<lambda>f. category f = ''sleep'') sl
            \<and> list_all (\<lambda>f. category f = ''recovery'') re
            \<and> list_all (\<lambda>f. category f = ''stress'') st
            \<and> list_all (\<lambda>f. category f = ''body_composition'') bo
            \<and> list_all (\<lambda>f. category f = ''activity'') ac
            \<and> list_all (\<lambda>f. category f = ''correlation'') co"
    apply (rule exI[of _ "n1 @ n2"])
    apply (rule exI[of _ "n3 @ n4 @ n5"])
    apply (rule exI[of _ n6])
    apply (rule exI[of _ n7])
    apply (rule exI[of _ "n8 @ n9 @ n10"])
    apply (rule exI[of _ n11])
    using c by (simp add: fs)
  moreover note run_rules_catalog[OF assms]
  ultimately show ?thesis by (rule conjI)
qed

theorem run_rules_category_order_witness:
  "\<exists>fs. run_rules 738892
          [''sleep_duration'' \<mapsto> january [20000, 20000, 20000],
           ''resting_hr'' \<mapsto> january [50, 50, 60],
           ''hrv'' \<mapsto> january [50, 50, 50, 50, 50, 50, 50, 50, 30, 30, 30],
           ''steps'' \<mapsto> january [10, 10, 10, 10, 10, 10, 10]] = Inr fs
        \<and> map rule fs = [''sleep_low_duration'', ''hrv_below_baseline'', ''steps_low'', ''recovery_deficit'']
        \<and> map category fs = [''sleep'', ''recovery'', ''activity'', ''correlation'']
        \<and> map severity fs = [''warning'', ''warning'', ''info'', ''alert'']
        \<and> subseq (map detector_key fs) detector_catalog"
proof -
  have "\<exists>fs. run_rules 738892
          [''sleep_duration'' \<mapsto> january [20000, 20000, 20000],
           ''resting_hr'' \<mapsto> january [50, 50, 60],
           ''hrv'' \<mapsto> january [50, 50, 50, 50, 50, 50, 50, 50, 30, 30, 30],
           ''steps'' \<mapsto> january [10, 10, 10, 10, 10, 10, 10]] = Inr fs
        \<and> map rule fs = [''sleep_low_duration'', ''hrv_below_baseline'', ''steps_low'', ''recovery_deficit'']
        \<and> map category fs = [''sleep'', ''recovery'', ''activity'', ''correlation'']
        \<and> map severity fs = [''warning'', ''warning'', ''info'', ''alert'']"
    by (simp add: rules_eval helper_eval january_def)
  then obtain fs where fs: "run_rules 738892
          [''sleep_duration'' \<mapsto> january [20000, 20000, 20000],
           ''resting_hr'' \<mapsto> january [50, 50, 60],
           ''hrv'' \<mapsto> january [50, 50, 50, 50, 50, 50, 50, 50, 30, 30, 30],
           ''steps'' \<mapsto> january [10, 10, 10, 10, 10, 10, 10]] = Inr fs"
    and r: "map rule fs = [''sleep_low_duration'', ''hrv_below_baseline'', ''steps_low'', ''recovery_deficit'']"
      "map category fs = [''sleep'', ''recovery'', ''activity'', ''correlation'']"
      "map severity fs = [''warning'', ''warning'', ''info'', ''alert'']"
    by (elim exE conjE)
  from run_rules_category_order [OF fs]
  have s: "subseq (map detector_key fs) detector_catalog" by (rule conjunct2)
  show ?thesis
    by (rule exI[of _ fs]) (intro conjI fs r s)
qed

section \<open>The HRV baseline detector\<close>







section \<open>The step detector\<close>

text \<open>
  C7.  A week of zero steps has the average 0, which is below 7000, and yet \<open>run_rules\<close>
  reports no \<open>steps_low\<close> finding: the guard \<open>avg_steps and avg_steps < 7000\<close> reads the
  average 0 as false.
\<close>

theorem steps_low_missed_at_zero_average:
  "7 \<le> length (january [0, 0, 0, 0, 0, 0, 0])
   \<and> avg (map Some (recent_values (january [0, 0, 0, 0, 0, 0, 0]) 7)) = Inr (Some 0)
   \<and> (0::rat) < 7000
   \<and> run_rules 738892 [''steps'' \<mapsto> january [0, 0, 0, 0, 0, 0, 0]] = Inr []"
  by (simp add: rules_eval helper_eval january_def)

section \<open>The language-model layer never fails\<close>

lemma fmt_avg_total: "\<exists>r. fmt_avg vals n transform = Inr r"
  unfolding fmt_avg_def
  by (cases "vals = []") (auto simp: avg_map_Some split: option.splits)

lemma build_metric_summary_total: "\<exists>r. build_metric_summary data = Inr r"
proof -
  obtain sd7 where sd7: "fmt_avg (map val (dict_get data ''sleep_duration'')) 7 (Some (\<lambda>x. x / 3600)) = Inr sd7"
    using fmt_avg_total by blast
  obtain sd30 where sd30: "fmt_avg (map val (dict_get data ''sleep_duration'')) 30 (Some (\<lambda>x. x / 3600)) = Inr sd30"
    using fmt_avg_total by blast
  obtain ss7 where ss7: "fmt_avg (map val (dict_get data ''sleep_score'')) 7 None = Inr ss7"
    using fmt_avg_total by blast
  obtain ss30 where ss30: "fmt_avg (map val (dict_get data ''sleep_score'')) 30 None = Inr ss30"
    using fmt_avg_total by blast
  obtain rhr7 where rhr7: "fmt_avg (map val (dict_get data ''resting_hr'')) 7 None = Inr rhr7"
    using fmt_avg_total by blast
  obtain rhr30 where rhr30: "fmt_avg (map val (dict_get data ''resting_hr'')) 30 None = Inr rhr30"
    using fmt_avg_total by blast
  obtain hrv7 where hrv7: "fmt_avg (map val (dict_get data ''hrv'')) 7 None = Inr hrv7"
    using fmt_avg_total by blast
  obtain hrv30 where hrv30: "fmt_avg (map val (dict_get data ''hrv'')) 30 None = Inr hrv30"
    using fmt_avg_total by blast
  obtain bb7 where bb7: "fmt_avg (map val (dict_get data ''body_battery'')) 7 None = Inr bb7"
    using fmt_avg_total by blast
  obtain bb30 where bb30: "fmt_avg (map val (dict_get data ''body_battery'')) 30 None = Inr bb30"
    using fmt_avg_total by blast
  obtain st7 where st7: "fmt_avg (map val (dict_get data ''stress'')) 7 None = Inr st7"
    using fmt_avg_total by blast
  obtain st30 where st30: "fmt_avg (map val (dict_get data ''stress'')) 30 None = Inr st30"
    using fmt_avg_total by blast
  obtain wt30 where wt30: "fmt_avg (map val (dict_get data ''weight'')) 30 (Some (\<lambda>x. x / 1000)) = Inr wt30"
    using fmt_avg_total by blast
  obtain steps7 where steps7: "fmt_avg (map val (dict_get data ''steps'')) 7 None = Inr steps7"
    using fmt_avg_total by blast
  obtain steps30 where steps30: "fmt_avg (map val (dict_get data ''steps'')) 30 None = Inr steps30"
    using fmt_avg_total by blast
  obtain tl7 where tl7: "fmt_avg (map val (dict_get data ''training_load'')) 7 None = Inr tl7"
    using fmt_avg_total by blast
  obtain tl30 where tl30: "fmt_avg (map val (dict_get data ''training_load'')) 30 None = Inr tl30"
    using fmt_avg_total by blast
  show ?thesis
    unfolding build_metric_summary_def Let_def
    by (simp add: sd7 sd30 ss7 ss30 rhr7 rhr30 hrv7 hrv30 bb7 bb30 st7 st30 wt30 steps7 steps30 tl7 tl30 py_last_def)
qed

lemma llm_request_total: "\<exists>req. llm_request e fs data = Inr req"
proof -
  obtain s where "build_metric_summary data = Inr s"
    using build_metric_summary_total by blast
  then show ?thesis
    unfolding llm_request_def Let_def by simp
qed

text \<open>
  C2.  \<open>get_llm_recommendations\<close> always returns a list and raises nothing.  The
  request it would send always exists; when no API key and no base URL is set, or the
  client library cannot be imported, or the call raises, or the response is not JSON, or
  the parsed response is not a list, the result is the rendering of the first five
  findings: for each the title is the rule identifier with \<open>_\<close> replaced by a blank
  and title-cased, the text is the message, the severity is the severity, and the
  metrics are the one-element list of the category.  When the call succeeds with a list,
  the result is its first five items.
\<close>

theorem get_llm_recommendations_fallback:
  "(\<exists>recs. get_llm_recommendations e fs data = Inr recs)
   \<and> (\<exists>req. llm_request e fs data = Inr req
         \<and> ((\<not> str_truthy (ANTHROPIC_API_KEY e) \<and> \<not> str_truthy (ANTHROPIC_BASE_URL e))
              \<or> \<not> anthropic_installed e
              \<or> messages_create e req = Call_failed
              \<or> messages_create e req = Json_decode_error
              \<or> (\<exists>v. messages_create e req = Parsed v \<and> \<not> is_list v)
             \<longrightarrow> get_llm_recommendations e fs data = Inr (findings_to_recommendations fs))
         \<and> ((str_truthy (ANTHROPIC_API_KEY e) \<or> str_truthy (ANTHROPIC_BASE_URL e))
              \<and> anthropic_installed e \<and> messages_create e req = Parsed (PList items)
             \<longrightarrow> get_llm_recommendations e fs data = Inr (take 5 items)
                 \<and> length (take 5 items) \<le> 5))
   \<and> findings_to_recommendations fs =
        map (\<lambda>f. PDict [(''title'', PStr [Lit (title (replace_char CHR ''_'' CHR '' '' (rule f)))]),
                        (''text'', PStr (message f)),
                        (''severity'', PStr [Lit (severity f)]),
                        (''metrics'', PList [PStr [Lit (category f)]])])
          (take 5 fs)
   \<and> length (findings_to_recommendations fs) = min 5 (length fs)"
proof -
  obtain req where req: "llm_request e fs data = Inr req"
    using llm_request_total by blast
  have total: "\<exists>recs. get_llm_recommendations e fs data = Inr recs"
    unfolding get_llm_recommendations_def Let_def
    by (simp add: req split: llm_outcome.splits pyval.splits)
  have fallback: "(\<not> str_truthy (ANTHROPIC_API_KEY e) \<and> \<not> str_truthy (ANTHROPIC_BASE_URL e))
              \<or> \<not> anthropic_installed e
              \<or> messages_create e req = Call_failed
              \<or> messages_create e req = Json_decode_error
              \<or> (\<exists>v. messages_create e req = Parsed v \<and> \<not> is_list v)
             \<longrightarrow> get_llm_recommendations e fs data = Inr (findings_to_recommendations fs)"
    unfolding get_llm_recommendations_def Let_def
    by (auto simp: req is_list_def split: llm_outcome.splits pyval.splits)
  have success: "(str_truthy (ANTHROPIC_API_KEY e) \<or> str_truthy (ANTHROPIC_BASE_URL e))
              \<and> anthropic_installed e \<and> messages_create e req = Parsed (PList items)
             \<longrightarrow> get_llm_recommendations e fs data = Inr (take 5 items)
                 \<and> length (take 5 items) \<le> 5"
    unfolding get_llm_recommendations_def Let_def
    by (auto simp: req)
  have rendering: "findings_to_recommendations fs =
        map (\<lambda>f. PDict [(''title'', PStr [Lit (title (replace_char CHR ''_'' CHR '' '' (rule f)))]),
                        (''text'', PStr (message f)),
                        (''severity'', PStr [Lit (severity f)]),
                        (''metrics'', PList [PStr [Lit (category f)]])])
          (take 5 fs)"
    by (simp add: findings_to_recommendations_def)
  have len: "length (findings_to_recommendations fs) = min 5 (length fs)"
    by (simp add: findings_to_recommendations_def min.commute)
  from req fallback success have "\<exists>req. llm_request e fs data = Inr req
         \<and> ((\<not> str_truthy (ANTHROPIC_API_KEY e) \<and> \<not> str_truthy (ANTHROPIC_BASE_URL e))
              \<or> \<not> anthropic_installed e
              \<or> messages_create e req = Call_failed
              \<or> messages_create e req = Json_decode_error
              \<or> (\<exists>v. messages_create e req = Parsed v \<and> \<not> is_list v)
             \<longrightarrow> get_llm_recommendations e fs data = Inr (findings_to_recommendations fs))
         \<and> ((str_truthy (ANTHROPIC_API_KEY e) \<or> str_truthy (ANTHROPIC_BASE_URL e))
              \<and> anthropic_installed e \<and> messages_create e req = Parsed (PList items)
             \<longrightarrow> get_llm_recommendations e fs data = Inr (take 5 items)
                 \<and> length (take 5 items) \<le> 5)"
    by (intro exI[of _ req] conjI)
  with total rendering len show ?thesis by (intro conjI)
qed

theorem get_llm_recommendations_fallback_witness:
  "get_llm_recommendations stub_env
      [\<lparr>category = ''activity'', severity = ''info'', rule = ''steps_low'',
        message = [Lit ''Daily step average is low''], fdata = []\<rparr>] Map.empty
    = Inr [PDict [(''title'', PStr [Lit ''Steps Low'']),
                  (''text'', PStr [Lit ''Daily step average is low'']),
                  (''severity'', PStr [Lit ''info'']),
                  (''metrics'', PList [PStr [Lit ''activity'']])]]
   \<and> get_llm_recommendations
        (stub_env\<lparr>ANTHROPIC_API_KEY := Some ''key'', anthropic_installed := True,
                   messages_create := (\<lambda>req. Parsed (PList [PNone, PNone, PNone, PNone, PNone, PNone]))\<rparr>)
        [] Map.empty
      = Inr [PNone, PNone, PNone, PNone, PNone]"
proof -
  have a: "\<not> str_truthy (ANTHROPIC_API_KEY stub_env) \<and> \<not> str_truthy (ANTHROPIC_BASE_URL stub_env)"
    by (simp add: stub_env_def str_truthy_def)
  have b: "str_truthy (ANTHROPIC_API_KEY (stub_env\<lparr>ANTHROPIC_API_KEY := Some ''key'', anthropic_installed := True,
                   messages_create := (\<lambda>req. Parsed (PList [PNone, PNone, PNone, PNone, PNone, PNone]))\<rparr>))"
    "anthropic_installed (stub_env\<lparr>ANTHROPIC_API_KEY := Some ''key'', anthropic_installed := True,
                   messages_create := (\<lambda>req. Parsed (PList [PNone, PNone, PNone, PNone, PNone, PNone]))\<rparr>)"
    "messages_create (stub_env\<lparr>ANTHROPIC_API_KEY := Some ''key'', anthropic_installed := True,
                   messages_create := (\<lambda>req. Parsed (PList [PNone, PNone, PNone, PNone, PNone, PNone]))\<rparr>) req
      = Parsed (PList [PNone, PNone, PNone, PNone, PNone, PNone])" for req
    by (simp_all add: str_truthy_def)
  have t: "title (replace_char CHR ''_'' CHR '' '' ''steps_low'') = ''Steps Low''"
    by (simp add: title_def replace_char_def is_lower_def is_upper_def to_upper_def to_lower_def)
  from get_llm_recommendations_fallback
      [of stub_env "[\<lparr>category = ''activity'', severity = ''info'', rule = ''steps_low'',
        message = [Lit ''Daily step average is low''], fdata = []\<rparr>]" Map.empty "[]"] a
  have 1: "get_llm_recommendations stub_env
      [\<lparr>category = ''activity'', severity = ''info'', rule = ''steps_low'',
        message = [Lit ''Daily step average is low''], fdata = []\<rparr>] Map.empty
    = Inr [PDict [(''title'', PStr [Lit ''Steps Low'']),
                  (''text'', PStr [Lit ''Daily step average is low'']),
                  (''severity'', PStr [Lit ''info'']),
                  (''metrics'', PList [PStr [Lit ''activity'']])]]"
    by (auto simp: t)
  from get_llm_recommendations_fallback
      [of "stub_env\<lparr>ANTHROPIC_API_KEY := Some ''key'', anthropic_installed := True,
                   messages_create := (\<lambda>req. Parsed (PList [PNone, PNone, PNone, PNone, PNone, PNone]))\<rparr>"
          "[]" Map.empty "[PNone, PNone, PNone, PNone, PNone, PNone]"] b
  have 2: "get_llm_recommendations
        (stub_env\<lparr>ANTHROPIC_API_KEY := Some ''key'', anthropic_installed := True,
                   messages_create := (\<lambda>req. Parsed (PList [PNone, PNone, PNone, PNone, PNone, PNone]))\<rparr>)
        [] Map.empty
      = Inr [PNone, PNone, PNone, PNone, PNone]"
    by auto
  from 1 2 show ?thesis by (rule conjI)
qed

section \<open>The cache\<close>

lemma valid_metrics_run_rules:
  assumes "valid_metrics data"
  shows "\<exists>fs. run_rules today data = Inr fs"
  using run_rules_total[OF valid_metrics_weight[OF assms]] by blast

lemma get_llm_recommendations_total: "\<exists>recs. get_llm_recommendations e fs data = Inr recs"
proof -
  obtain req where req: "llm_request e fs data = Inr req"
    using llm_request_total by blast
  show ?thesis
    unfolding get_llm_recommendations_def Let_def
    by (simp add: req split: llm_outcome.splits pyval.splits)
qed

lemma list_truthy_iff: "list_truthy v \<longleftrightarrow> (\<exists>xs. v = Some xs \<and> xs \<noteq> [])"
  by (cases v) (simp_all add: list_truthy_def)

text \<open>
  C1.  Call the cache entry fresh when \<open>force\<close> is false, the cached hash is the hash of
  the current metrics, the entry is younger than 6 hours (21600 seconds), and its list
  of recommendations is there and not empty.  If it is fresh, \<open>get_recommendations\<close>
  returns the cached recommendations and timestamp with \<open>cached = True\<close> and leaves the
  state alone.  If it is not (so also when \<open>force\<close> is true), and the stored dates are
  valid, it runs the rules and the narrative generator, stores hash, time and result in
  the one cache slot, and returns the result with \<open>cached = False\<close>.  So the answer is
  marked cached exactly when the entry was fresh.
\<close>

theorem get_recommendations_cache:
  "(let data = get_all_metrics e 30;
        h = md5_json_dumps e data;
        now = time_time e;
        fresh = (\<not> force \<and> hash (cache s) = Some h \<and> now - timestamp (cache s) < 21600
                  \<and> (\<exists>recs. cache_entry.recommendations (cache s) = Some recs \<and> recs \<noteq> []))
    in (fresh \<longrightarrow>
          get_recommendations e force s =
            (Inr \<lparr>recommendations = cache_entry.recommendations (cache s), cached = True,
                  generated_at = timestamp (cache s)\<rparr>, s))
     \<and> (\<not> fresh \<and> valid_metrics data \<longrightarrow>
          (\<exists>fs recs. run_rules (date_today e) data = Inr fs
             \<and> get_llm_recommendations e fs data = Inr recs
             \<and> get_recommendations e force s =
                 (Inr \<lparr>recommendations = Some recs, cached = False, generated_at = now\<rparr>,
                  s\<lparr>cache := \<lparr>hash = Some h, timestamp = now, recommendations = Some recs\<rparr>,
                    narrative_calls := narrative_calls s + 1\<rparr>)))
     \<and> (valid_metrics data \<longrightarrow>
          (\<exists>r. fst (get_recommendations e force s) = Inr r \<and> (cached r \<longleftrightarrow> fresh))))"
proof -
  define data where "data = get_all_metrics e 30"
  define h where "h = md5_json_dumps e data"
  define now where "now = time_time e"
  define fresh where "fresh \<longleftrightarrow> \<not> force \<and> hash (cache s) = Some h \<and> now - timestamp (cache s) < 21600
                  \<and> (\<exists>recs. cache_entry.recommendations (cache s) = Some recs \<and> recs \<noteq> [])"
  have hit: "get_recommendations e force s =
            (Inr \<lparr>recommendations = cache_entry.recommendations (cache s), cached = True,
                  generated_at = timestamp (cache s)\<rparr>, s)" if fresh
    using that unfolding fresh_def get_recommendations_def Let_def h_def data_def now_def
    by (simp add: CACHE_TTL_def list_truthy_iff)
  have miss: "\<exists>fs recs. run_rules (date_today e) data = Inr fs
             \<and> get_llm_recommendations e fs data = Inr recs
             \<and> get_recommendations e force s =
                 (Inr \<lparr>recommendations = Some recs, cached = False, generated_at = now\<rparr>,
                  s\<lparr>cache := \<lparr>hash = Some h, timestamp = now, recommendations = Some recs\<rparr>,
                    narrative_calls := narrative_calls s + 1\<rparr>)"
    if nf: "\<not> fresh" and v: "valid_metrics data"
  proof -
    obtain fs where fs: "run_rules (date_today e) data = Inr fs"
      using valid_metrics_run_rules[OF v] by blast
    obtain recs where recs: "get_llm_recommendations e fs data = Inr recs"
      using get_llm_recommendations_total by blast
    have c: "\<not> (\<not> force \<and> hash (cache s) = Some (md5_json_dumps e (get_all_metrics e 30))
         \<and> time_time e - timestamp (cache s) < CACHE_TTL
         \<and> list_truthy (cache_entry.recommendations (cache s)))"
      using nf unfolding fresh_def h_def data_def now_def
      by (simp add: CACHE_TTL_def list_truthy_iff)
    have "get_recommendations e force s =
                 (Inr \<lparr>recommendations = Some recs, cached = False, generated_at = now\<rparr>,
                  s\<lparr>cache := \<lparr>hash = Some h, timestamp = now, recommendations = Some recs\<rparr>,
                    narrative_calls := narrative_calls s + 1\<rparr>)"
      unfolding get_recommendations_def Let_def
      using c fs recs unfolding h_def data_def now_def
      by simp
    with fs recs show ?thesis by blast
  qed
  have flag: "\<exists>r. fst (get_recommendations e force s) = Inr r \<and> (cached r \<longleftrightarrow> fresh)"
    if v: "valid_metrics data"
  proof (cases fresh)
    case True
    with hit show ?thesis by simp
  next
    case False
    from miss[OF False v] show ?thesis using False by auto
  qed
  from hit miss flag show ?thesis
    unfolding Let_def data_def[symmetric] h_def[symmetric] now_def[symmetric] fresh_def[symmetric]
    by blast
qed

lemma stub_metrics_valid: "valid_metrics (get_all_metrics stub_env 30)"
  by (simp add: valid_metrics_def get_all_metrics_def get_metric_def metric_columns_def
      stub_env_def dict_get_def)

lemma stub_run_rules: "run_rules today (get_all_metrics stub_env 30) = Inr []"
  by (simp add: rules_eval dict_get_def get_all_metrics_def get_metric_def metric_columns_def
      stub_env_def)

lemma stub_narrative: "get_llm_recommendations stub_env [] data = Inr []"
  by (simp add: get_llm_recommendations_def stub_env_def str_truthy_def
      findings_to_recommendations_def)

theorem get_recommendations_cache_witness:
  "get_recommendations stub_env False
      \<lparr>cache = \<lparr>hash = Some ''d41d8cd9'', timestamp = 1704283100, recommendations = Some [PNone]\<rparr>,
       narrative_calls = 0\<rparr>
    = (Inr \<lparr>recommendations = Some [PNone], cached = True, generated_at = 1704283100\<rparr>,
       \<lparr>cache = \<lparr>hash = Some ''d41d8cd9'', timestamp = 1704283100, recommendations = Some [PNone]\<rparr>,
        narrative_calls = 0\<rparr>)
   \<and> get_recommendations stub_env True
      \<lparr>cache = \<lparr>hash = Some ''d41d8cd9'', timestamp = 1704283100, recommendations = Some [PNone]\<rparr>,
       narrative_calls = 0\<rparr>
    = (Inr \<lparr>recommendations = Some [], cached = False, generated_at = 1704283200\<rparr>,
       \<lparr>cache = \<lparr>hash = Some ''d41d8cd9'', timestamp = 1704283200, recommendations = Some []\<rparr>,
        narrative_calls = 1\<rparr>)"
proof -
  define s1 where "s1 = \<lparr>cache = \<lparr>hash = Some ''d41d8cd9'', timestamp = 1704283100,
      recommendations = Some [PNone]\<rparr>, narrative_calls = 0\<rparr>"
  have env: "md5_json_dumps stub_env (get_all_metrics stub_env 30) = ''d41d8cd9''"
    "time_time stub_env = 1704283200" "date_today stub_env = 738888"
    by (simp_all add: stub_env_def)
  from get_recommendations_cache [of stub_env False s1]
  have 1: "get_recommendations stub_env False s1 =
      (Inr \<lparr>recommendations = Some [PNone], cached = True, generated_at = 1704283100\<rparr>, s1)"
    unfolding Let_def env by (simp add: s1_def)
  from get_recommendations_cache [of stub_env True s1] stub_metrics_valid
  have "\<exists>fs recs. run_rules 738888 (get_all_metrics stub_env 30) = Inr fs
       \<and> get_llm_recommendations stub_env fs (get_all_metrics stub_env 30) = Inr recs
       \<and> get_recommendations stub_env True s1 =
           (Inr \<lparr>recommendations = Some recs, cached = False, generated_at = 1704283200\<rparr>,
            s1\<lparr>cache := \<lparr>hash = Some ''d41d8cd9'', timestamp = 1704283200, recommendations = Some recs\<rparr>,
               narrative_calls := narrative_calls s1 + 1\<rparr>)"
    unfolding Let_def env by simp
  then have 2: "get_recommendations stub_env True s1 =
      (Inr \<lparr>recommendations = Some [], cached = False, generated_at = 1704283200\<rparr>,
       \<lparr>cache = \<lparr>hash = Some ''d41d8cd9'', timestamp = 1704283200, recommendations = Some []\<rparr>,
        narrative_calls = 1\<rparr>)"
    by (auto simp: stub_run_rules stub_narrative s1_def)
  from 1 2 show ?thesis unfolding s1_def by (rule conjI)
qed

section \<open>Rules only\<close>

lemma get_all_metrics_db_only:
  "get_all_metrics (e\<lparr>ANTHROPIC_API_KEY := k, ANTHROPIC_BASE_URL := u, anthropic_installed := i,
       messages_create := m\<rparr>) days = get_all_metrics e days"
  by (simp add: get_all_metrics_def get_metric_def)

text \<open>
  C9.  \<open>get_rules_only\<close> leaves the whole state as it was: the cache slot is unchanged
  and the narrative generator has not been called.  Its result does not depend on the
  state it starts from, nor on the language-model settings; it is the outcome of
  \<open>run_rules\<close> on the current metrics, with \<open>count\<close> the number of findings, and with
  valid stored dates it is always such a result.
\<close>

theorem get_rules_only_frame:
  "snd (get_rules_only e s) = s
   \<and> cache (snd (get_rules_only e s)) = cache s
   \<and> narrative_calls (snd (get_rules_only e s)) = narrative_calls s
   \<and> fst (get_rules_only e s') = fst (get_rules_only e s)
   \<and> fst (get_rules_only (e\<lparr>ANTHROPIC_API_KEY := k, ANTHROPIC_BASE_URL := u,
             anthropic_installed := i, messages_create := m\<rparr>) s) = fst (get_rules_only e s)
   \<and> fst (get_rules_only e s) =
       (case run_rules (date_today e) (get_all_metrics e 30) of
          Inl err \<Rightarrow> Inl err
        | Inr fs \<Rightarrow> Inr \<lparr>findings = fs, count = length fs\<rparr>)
   \<and> (valid_metrics (get_all_metrics e 30) \<longrightarrow>
        (\<exists>fs. fst (get_rules_only e s) = Inr \<lparr>findings = fs, count = length fs\<rparr>))"
proof -
  have frame: "snd (get_rules_only e s) = s"
    by (simp add: get_rules_only_def Let_def split: sum.splits)
  have indep: "fst (get_rules_only e s') = fst (get_rules_only e s)"
    by (simp add: get_rules_only_def Let_def split: sum.splits)
  have llm: "fst (get_rules_only (e\<lparr>ANTHROPIC_API_KEY := k, ANTHROPIC_BASE_URL := u,
             anthropic_installed := i, messages_create := m\<rparr>) s) = fst (get_rules_only e s)"
    unfolding get_rules_only_def Let_def get_all_metrics_db_only
    by (simp split: sum.splits)
  have res: "fst (get_rules_only e s) =
       (case run_rules (date_today e) (get_all_metrics e 30) of
          Inl err \<Rightarrow> Inl err
        | Inr fs \<Rightarrow> Inr \<lparr>findings = fs, count = length fs\<rparr>)"
    by (simp add: get_rules_only_def Let_def split: sum.splits)
  have tot: "valid_metrics (get_all_metrics e 30) \<longrightarrow>
        (\<exists>fs. fst (get_rules_only e s) = Inr \<lparr>findings = fs, count = length fs\<rparr>)"
  proof
    assume "valid_metrics (get_all_metrics e 30)"
    then obtain fs where "run_rules (date_today e) (get_all_metrics e 30) = Inr fs"
      using valid_metrics_run_rules by blast
    then show "\<exists>fs. fst (get_rules_only e s) = Inr \<lparr>findings = fs, count = length fs\<rparr>"
      unfolding res by simp
  qed
  from frame indep llm res tot show ?thesis by simp
qed

theorem get_rules_only_frame_witness:
  "valid_metrics (get_all_metrics stub_env 30)
   \<and> get_rules_only stub_env
       \<lparr>cache = \<lparr>hash = Some ''d41d8cd9'', timestamp = 1704283100, recommendations = Some [PNone]\<rparr>,
        narrative_calls = 3\<rparr>
     = (Inr \<lparr>findings = [], count = 0\<rparr>,
        \<lparr>cache = \<lparr>hash = Some ''d41d8cd9'', timestamp = 1704283100, recommendations = Some [PNone]\<rparr>,
         narrative_calls = 3\<rparr>)"
proof -
  define s1 where "s1 = \<lparr>cache = \<lparr>hash = Some ''d41d8cd9'', timestamp = 1704283100,
      recommendations = Some [PNone]\<rparr>, narrative_calls = 3\<rparr>"
  from get_rules_only_frame [where e = stub_env and s = s1]
  have "snd (get_rules_only stub_env s1) = s1"
    and "fst (get_rules_only stub_env s1) = Inr \<lparr>findings = [], count = 0\<rparr>"
    by (simp_all add: stub_run_rules)
  then have "get_rules_only stub_env s1 = (Inr \<lparr>findings = [], count = 0\<rparr>, s1)"
    by (simp add: prod_eq_iff)
  with stub_metrics_valid show ?thesis unfolding s1_def by (rule conjI)
qed

end
